theory Spec2Isabelle
  imports Complex_Main
begin

section \<open>The session benchmark and the world it calls\<close>

text \<open>
  \<^verbatim>\<open>session_benchmark.py\<close> holds two measurement procedures, \<^verbatim>\<open>_benchmarkFeed\<close> and
  \<^verbatim>\<open>_benchmarkFetch\<close>, and two suites that call them. Everything they do is a call into
  numpy, TensorFlow, the clock, standard output or the benchmark reporter. The embedding
  keeps the control flow of the source and makes the world explicit: a run takes the
  history of events so far and returns its result together with the extended history.
  An exception of the source is the left summand of the result.

  Floats are idealised as reals (no rounding of differences or means); the result of
  \<^verbatim>\<open>np.median\<close> is a \<open>pyfloat\<close>, which adds the not-a-number of an empty sample list.
\<close>

subsection \<open>Data\<close>

type_synonym payload = "real list"

datatype exn = Exn string

datatype pyfloat = NaN | Float real

text \<open>The calls that may raise, with the arguments the source passes.\<close>

datatype call =
    NpRandomRand int
  | TfGraph
  | TfPlaceholder int
  | TfIdentity
  | TfVariable int
  | TfSession string
  | RunFeed payload
  | RunInitializer
  | RunFetch
  | Print string
  | ReportBenchmark int pyfloat string
  | CreateLocalServer
  | SessionReset string

text \<open>
  An event is a call that returned, a call that raised, a reading of \<^verbatim>\<open>time.time()\<close>, or
  the exit of one of the two \<^verbatim>\<open>with\<close> blocks.
\<close>

datatype event =
    Ret call
  | Raise call exn
  | TimeTime real
  | SessionExit
  | GraphExit

text \<open>
  The world is a parameter: whether a call raises, what the clock reads, which vector
  \<^verbatim>\<open>np.random.rand\<close> draws and which target the local server gets may all depend on
  everything that happened before.
\<close>

record env =
  raises :: "event list \<Rightarrow> call \<Rightarrow> exn option"
  time_time :: "event list \<Rightarrow> real"
  random_rand :: "event list \<Rightarrow> int \<Rightarrow> payload"
  server_target :: "event list \<Rightarrow> string"

type_synonym 'a run = "event list \<Rightarrow> (exn + 'a) \<times> event list"

subsection \<open>Sequencing, calls and \<^verbatim>\<open>with\<close> blocks\<close>

definition bnd :: "'a run \<Rightarrow> ('a \<Rightarrow> 'b run) \<Rightarrow> 'b run" where
  "bnd m f tr = (case m tr of (Inl e, tr') \<Rightarrow> (Inl e, tr') | (Inr x, tr') \<Rightarrow> f x tr')"

definition ext :: "env \<Rightarrow> call \<Rightarrow> unit run" where
  "ext env c tr =
     (case raises env tr c of
        Some e \<Rightarrow> (Inl e, tr @ [Raise c e])
      | None \<Rightarrow> (Inr (), tr @ [Ret c]))"

definition np_random_rand :: "env \<Rightarrow> int \<Rightarrow> payload run" where
  "np_random_rand env sz tr =
     (case raises env tr (NpRandomRand sz) of
        Some e \<Rightarrow> (Inl e, tr @ [Raise (NpRandomRand sz) e])
      | None \<Rightarrow> (Inr (random_rand env tr sz), tr @ [Ret (NpRandomRand sz)]))"

definition create_local_server :: "env \<Rightarrow> string run" where
  "create_local_server env tr =
     (case raises env tr CreateLocalServer of
        Some e \<Rightarrow> (Inl e, tr @ [Raise CreateLocalServer e])
      | None \<Rightarrow> (Inr (server_target env tr), tr @ [Ret CreateLocalServer]))"

text \<open>
  Modelled from the spec: the context managers of \<^verbatim>\<open>tf.Graph().as_default()\<close> and
  \<^verbatim>\<open>tf.Session(target)\<close> are not part of the source file. Entering is a call that may
  raise; leaving happens on both paths, does not raise, and lets an exception of the body
  pass unchanged (``scoped acquisition with guaranteed release at the end of the call,
  regardless of whether execution succeeded'').
\<close>

definition with_block :: "env \<Rightarrow> call \<Rightarrow> event \<Rightarrow> 'a run \<Rightarrow> 'a run" where
  "with_block env enter leave body tr =
     (case ext env enter tr of
        (Inl e, tr1) \<Rightarrow> (Inl e, tr1)
      | (Inr _, tr1) \<Rightarrow> (case body tr1 of (r, tr2) \<Rightarrow> (r, tr2 @ [leave])))"

subsection \<open>The timed loop\<close>

text \<open>
  Lines 51--55 and 80--84: \<^verbatim>\<open>for _ in xrange(iters)\<close> around a start reading, one
  \<^verbatim>\<open>sess.run\<close>, an end reading and the append of the difference. The two loops differ in
  the run only, which is the parameter \<open>c\<close>.
\<close>

fun timed_loop :: "env \<Rightarrow> call \<Rightarrow> nat \<Rightarrow> real list \<Rightarrow> (real list) run" where
  "timed_loop env c 0 times' tr = (Inr times', tr)"
| "timed_loop env c (Suc n) times' tr =
     (let start_time = time_time env tr;
          tr1 = tr @ [TimeTime start_time]
      in case ext env c tr1 of
           (Inl e, tr2) \<Rightarrow> (Inl e, tr2)
         | (Inr _, tr2) \<Rightarrow>
             (let end_time = time_time env tr2;
                  tr3 = tr2 @ [TimeTime end_time]
              in timed_loop env c n (times' @ [end_time - start_time]) tr3))"

text \<open>
  \<^verbatim>\<open>xrange\<close> takes a C long (64 bits on the platforms the benchmark runs on) and raises
  \<^verbatim>\<open>OverflowError\<close> otherwise; a count below one gives no iteration.
\<close>

definition OverflowError :: exn where
  "OverflowError = Exn ''OverflowError''"

definition xrange_ok :: "int \<Rightarrow> bool" where
  "xrange_ok n \<longleftrightarrow> - (2 ^ 63) \<le> n \<and> n \<le> 2 ^ 63 - 1"

definition for_xrange :: "env \<Rightarrow> call \<Rightarrow> int \<Rightarrow> (real list) run" where
  "for_xrange env c iters tr =
     (if xrange_ok iters then timed_loop env c (nat iters) [] tr
      else (Inl OverflowError, tr))"

subsection \<open>\<^verbatim>\<open>np.median\<close> and the format string\<close>

text \<open>
  \<^verbatim>\<open>np.median\<close> of a list: the middle element of the sorted samples, the mean of the two
  middle ones for an even count, not-a-number for no sample.
\<close>

definition median :: "real list \<Rightarrow> pyfloat" where
  "median xs =
     (let n = length xs; s = sort xs
      in if n = 0 then NaN
         else if odd n then Float (s ! (n div 2))
         else Float ((s ! (n div 2 - 1) + s ! (n div 2)) / 2))"

definition digit_char :: "nat \<Rightarrow> char" where
  "digit_char d = ''0123456789'' ! (d mod 10)"

fun dec_digits :: "nat \<Rightarrow> string" where
  "dec_digits n =
     (if n < 10 then [digit_char n] else dec_digits (n div 10) @ [digit_char (n mod 10)])"

declare dec_digits.simps [simp del]

text \<open>\<^verbatim>\<open>%d\<close> of an integer.\<close>

definition fmt_d :: "int \<Rightarrow> string" where
  "fmt_d i = (if i < 0 then ''-'' @ dec_digits (nat (- i)) else dec_digits (nat i))"

text \<open>
  \<^verbatim>\<open>%f\<close>: fixed notation with six digits after the point, the last one rounded (a tie
  goes to the even digit); \<^verbatim>\<open>nan\<close> for not-a-number.
\<close>

definition round_half_even :: "real \<Rightarrow> int" where
  "round_half_even y =
     (let f = \<lfloor>y\<rfloor>; d = y - of_int f
      in if d < 1 / 2 then f else if 1 / 2 < d then f + 1 else if even f then f else f + 1)"

definition six_digits :: "nat \<Rightarrow> string" where
  "six_digits q =
     map digit_char
       [q div 100000, q div 10000, q div 1000, q div 100, q div 10, q]"

fun fmt_f :: "pyfloat \<Rightarrow> string" where
  "fmt_f NaN = ''nan''"
| "fmt_f (Float x) =
     (let q = nat (round_half_even (\<bar>x\<bar> * 1000000))
      in (if x < 0 then ''-'' else '''') @ dec_digits (q div 1000000) @ ''.'' @
         six_digits (q mod 1000000))"

text \<open>\<^verbatim>\<open>"%s %d %f" % (name, size, np.median(times))\<close>\<close>

definition format_line :: "string \<Rightarrow> int \<Rightarrow> pyfloat \<Rightarrow> string" where
  "format_line name sz m = name @ '' '' @ fmt_d sz @ '' '' @ fmt_f m"

subsection \<open>The two measurements\<close>

text \<open>
  Lines 56--58 and 85--87 are the same in both procedures: the line on standard output,
  then the record for the reporter. \<^verbatim>\<open>np.median(times)\<close> is evaluated once for each.
\<close>

definition print_and_report :: "env \<Rightarrow> string \<Rightarrow> int \<Rightarrow> int \<Rightarrow> real list \<Rightarrow> unit run" where
  "print_and_report env name sz iters times' =
     bnd (ext env (Print (format_line name sz (median times')))) (\<lambda>_.
     ext env (ReportBenchmark iters (median times') name))"

text \<open>Lines 42--55 of \<^verbatim>\<open>_benchmarkFeed\<close>: the value is the list \<^verbatim>\<open>times\<close>.\<close>

definition feed_times :: "env \<Rightarrow> string \<Rightarrow> int \<Rightarrow> int \<Rightarrow> (real list) run" where
  "feed_times env target sz iters =
     bnd (np_random_rand env sz) (\<lambda>feed_val.
     with_block env TfGraph GraphExit
       (bnd (ext env (TfPlaceholder sz)) (\<lambda>_.
        bnd (ext env TfIdentity) (\<lambda>_.
        with_block env (TfSession target) SessionExit
          (bnd (ext env (RunFeed feed_val)) (\<lambda>_.
           for_xrange env (RunFeed feed_val) iters))))))"

definition benchmarkFeed :: "env \<Rightarrow> string \<Rightarrow> string \<Rightarrow> int \<Rightarrow> int \<Rightarrow> unit run" where
  "benchmarkFeed env name target sz iters =
     bnd (feed_times env target sz iters) (print_and_report env name sz iters)"

text \<open>Lines 72--84 of \<^verbatim>\<open>_benchmarkFetch\<close>.\<close>

definition fetch_times :: "env \<Rightarrow> string \<Rightarrow> int \<Rightarrow> int \<Rightarrow> (real list) run" where
  "fetch_times env target sz iters =
     with_block env TfGraph GraphExit
       (bnd (ext env (TfVariable sz)) (\<lambda>_.
        with_block env (TfSession target) SessionExit
          (bnd (ext env RunInitializer) (\<lambda>_.
           bnd (ext env RunFetch) (\<lambda>_.
           for_xrange env RunFetch iters)))))"

definition benchmarkFetch :: "env \<Rightarrow> string \<Rightarrow> string \<Rightarrow> int \<Rightarrow> int \<Rightarrow> unit run" where
  "benchmarkFetch env name target sz iters =
     bnd (fetch_times env target sz iters) (print_and_report env name sz iters)"

subsection \<open>The two suites\<close>

definition benchmarkGrpcSession :: "env \<Rightarrow> unit run" where
  "benchmarkGrpcSession env =
     bnd (create_local_server env) (\<lambda>target.
     bnd (benchmarkFeed env ''benchmark_session_feed_grpc_4B'' target 1 10000) (\<lambda>_.
     bnd (ext env (SessionReset target)) (\<lambda>_.
     bnd (benchmarkFeed env ''benchmark_session_feed_grpc_4MB'' target (2 ^ 20) 100) (\<lambda>_.
     bnd (ext env (SessionReset target)) (\<lambda>_.
     bnd (benchmarkFetch env ''benchmark_session_fetch_grpc_4B'' target 1 20000) (\<lambda>_.
     bnd (ext env (SessionReset target)) (\<lambda>_.
     bnd (benchmarkFetch env ''benchmark_session_fetch_grpc_4MB'' target (2 ^ 20) 100) (\<lambda>_.
     ext env (SessionReset target)))))))))"

definition benchmarkDirectSession :: "env \<Rightarrow> unit run" where
  "benchmarkDirectSession env =
     bnd (benchmarkFeed env ''benchmark_session_feed_direct_4B'' '''' 1 5000) (\<lambda>_.
     bnd (benchmarkFeed env ''benchmark_session_feed_direct_4MB'' '''' (2 ^ 20) 200) (\<lambda>_.
     bnd (benchmarkFetch env ''benchmark_session_fetch_direct_4B'' '''' 1 5000) (\<lambda>_.
     benchmarkFetch env ''benchmark_session_fetch_direct_4MB'' '''' (2 ^ 20) 100)))"

section \<open>Observing a run\<close>

text \<open>
  The properties below are about the events a run adds to the history. These functions
  read them the way a fake service with a call log and a fake clock would.
\<close>

text \<open>The calls that returned, in order.\<close>

fun calls :: "event list \<Rightarrow> call list" where
  "calls [] = []"
| "calls (Ret c # evs) = c # calls evs"
| "calls (x # evs) = calls evs"

text \<open>
  A call is timed when a clock reading stands right before it and right after it; the
  sample it contributes is the difference of the two readings.
\<close>

fun samples :: "event list \<Rightarrow> real list" where
  "samples (TimeTime s # Ret c # TimeTime e # evs) = (e - s) # samples evs"
| "samples (x # evs) = samples evs"
| "samples [] = []"

fun timed_calls :: "event list \<Rightarrow> call list" where
  "timed_calls (TimeTime s # Ret c # TimeTime e # evs) = c # timed_calls evs"
| "timed_calls (x # evs) = timed_calls evs"
| "timed_calls [] = []"

fun untimed_calls :: "event list \<Rightarrow> call list" where
  "untimed_calls (TimeTime s # Ret c # TimeTime e # evs) = untimed_calls evs"
| "untimed_calls (Ret c # evs) = c # untimed_calls evs"
| "untimed_calls (x # evs) = untimed_calls evs"
| "untimed_calls [] = []"

fun is_run :: "call \<Rightarrow> bool" where
  "is_run (RunFeed v) = True"
| "is_run RunInitializer = True"
| "is_run RunFetch = True"
| "is_run _ = False"

fun is_draw :: "call \<Rightarrow> bool" where
  "is_draw (NpRandomRand n) = True"
| "is_draw _ = False"

fun is_print :: "call \<Rightarrow> bool" where
  "is_print (Print s) = True"
| "is_print _ = False"

fun is_report :: "call \<Rightarrow> bool" where
  "is_report (ReportBenchmark i m n) = True"
| "is_report _ = False"

fun is_sink :: "call \<Rightarrow> bool" where
  "is_sink (Print s) = True"
| "is_sink (ReportBenchmark i m n) = True"
| "is_sink _ = False"

text \<open>Graph construction, session open and \<^verbatim>\<open>session.run\<close>: the execution service.\<close>

fun service_call :: "call \<Rightarrow> bool" where
  "service_call TfGraph = True"
| "service_call (TfPlaceholder n) = True"
| "service_call TfIdentity = True"
| "service_call (TfVariable n) = True"
| "service_call (TfSession t) = True"
| "service_call (RunFeed v) = True"
| "service_call RunInitializer = True"
| "service_call RunFetch = True"
| "service_call _ = False"

text \<open>What tells one case of a suite from the next: its graph input, its session, its
  report, and the resets between cases.\<close>

fun case_mark :: "call \<Rightarrow> bool" where
  "case_mark (TfPlaceholder n) = True"
| "case_mark (TfVariable n) = True"
| "case_mark (TfSession t) = True"
| "case_mark (ReportBenchmark i m n) = True"
| "case_mark (SessionReset t) = True"
| "case_mark _ = False"

text \<open>Where a case starts to use the service, where it ends, and the resets.\<close>

fun case_bound :: "call \<Rightarrow> bool" where
  "case_bound (TfSession t) = True"
| "case_bound (ReportBenchmark i m n) = True"
| "case_bound (SessionReset t) = True"
| "case_bound _ = False"

fun report_iters :: "call \<Rightarrow> int" where
  "report_iters (ReportBenchmark i m n) = i"
| "report_iters _ = 0"

subsection \<open>The events of a completed measurement\<close>

text \<open>One timed iteration per pair of a start and an end reading.\<close>

fun iterations :: "call \<Rightarrow> (real \<times> real) list \<Rightarrow> event list" where
  "iterations c [] = []"
| "iterations c ((s, e) # ps) = TimeTime s # Ret c # TimeTime e # iterations c ps"

definition delta :: "real \<times> real \<Rightarrow> real" where
  "delta p = snd p - fst p"

definition feed_body :: "string \<Rightarrow> int \<Rightarrow> payload \<Rightarrow> (real \<times> real) list \<Rightarrow> event list" where
  "feed_body target sz v ps =
     [Ret (NpRandomRand sz), Ret TfGraph, Ret (TfPlaceholder sz), Ret TfIdentity,
      Ret (TfSession target), Ret (RunFeed v)] @ iterations (RunFeed v) ps @
     [SessionExit, GraphExit]"

definition fetch_body :: "string \<Rightarrow> int \<Rightarrow> (real \<times> real) list \<Rightarrow> event list" where
  "fetch_body target sz ps =
     [Ret TfGraph, Ret (TfVariable sz), Ret (TfSession target), Ret RunInitializer,
      Ret RunFetch] @ iterations RunFetch ps @ [SessionExit, GraphExit]"

definition report_events :: "string \<Rightarrow> int \<Rightarrow> int \<Rightarrow> (real \<times> real) list \<Rightarrow> event list" where
  "report_events name sz iters ps =
     [Ret (Print (format_line name sz (median (map delta ps)))),
      Ret (ReportBenchmark iters (median (map delta ps)) name)]"

subsection \<open>Runs that fail\<close>

text \<open>
  What the part of a measurement before the print may add to the history, given how it
  ends: no call to a sink, and a raise only of the exception it ends with.
\<close>

fun err :: "exn + 'a \<Rightarrow> exn option" where
  "err (Inl e) = Some e"
| "err (Inr x) = None"

fun body_ok :: "exn option \<Rightarrow> event \<Rightarrow> bool" where
  "body_ok r (Ret c) = (\<not> is_sink c)"
| "body_ok r (Raise c e) = (\<not> is_sink c \<and> r = Some e)"
| "body_ok r x = True"

definition tidy :: "'a run \<Rightarrow> bool" where
  "tidy m \<longleftrightarrow>
     (\<forall>tr. \<exists>evs. snd (m tr) = tr @ evs \<and> (\<forall>x\<in>set evs. body_ok (err (fst (m tr))) x))"

subsection \<open>A fake service\<close>

text \<open>
  The world of the examples: the clock reads the next entry of a script (and counts on
  once the script is used up), the call made when the history has \<open>k\<close> events raises if
  \<open>fail_at = Some k\<close>, the random vector is constant and the server has a fixed target.
\<close>

fun is_reading :: "event \<Rightarrow> bool" where
  "is_reading (TimeTime t) = True"
| "is_reading _ = False"

definition scripted_clock :: "real list \<Rightarrow> event list \<Rightarrow> real" where
  "scripted_clock script tr =
     (let k = length (filter is_reading tr)
      in if k < length script then script ! k else of_nat k)"

definition Unavailable :: exn where
  "Unavailable = Exn ''UnavailableError''"

definition fake :: "nat option \<Rightarrow> real list \<Rightarrow> env" where
  "fake fail_at script =
     \<lparr>raises = (\<lambda>tr c. if fail_at = Some (length tr) then Some Unavailable else None),
      time_time = scripted_clock script,
      random_rand = (\<lambda>tr n. replicate (nat n) (1 / 4)),
      server_target = (\<lambda>tr. ''grpc://localhost:2222'')\<rparr>"

text \<open>A service that never fails, with readings that give the samples 0.5, 0.1, 0.3.\<close>

definition example_service :: env where
  "example_service = fake None [0, 0.5, 1, 1.1, 2, 2.3]"

text \<open>The same service, but the call made after \<open>k\<close> events raises.\<close>

definition failing_service :: "nat \<Rightarrow> env" where
  "failing_service k = fake (Some k) [0, 0.5, 1, 1.1, 2, 2.3]"

definition reliable :: "env \<Rightarrow> bool" where
  "reliable env \<longleftrightarrow> (\<forall>tr c. raises env tr c = None)"

section \<open>Lemmas\<close>

subsection \<open>Runs that complete\<close>

lemma bnd_Inr:
  "bnd m f tr = (Inr y, tr') \<Longrightarrow> \<exists>x tr1. m tr = (Inr x, tr1) \<and> f x tr1 = (Inr y, tr')"
  by (auto simp: bnd_def split: prod.splits sum.splits)

lemma ext_Inr: "ext env c tr = (Inr u, tr') \<Longrightarrow> tr' = tr @ [Ret c]"
  by (auto simp: ext_def split: option.splits)

lemma np_random_rand_Inr:
  "np_random_rand env sz tr = (Inr v, tr') \<Longrightarrow>
   v = random_rand env tr sz \<and> tr' = tr @ [Ret (NpRandomRand sz)]"
  by (auto simp: np_random_rand_def split: option.splits)

lemma create_local_server_Inr:
  "create_local_server env tr = (Inr t, tr') \<Longrightarrow>
   t = server_target env tr \<and> tr' = tr @ [Ret CreateLocalServer]"
  by (auto simp: create_local_server_def split: option.splits)

lemma with_block_Inr:
  "with_block env c x body tr = (Inr y, tr') \<Longrightarrow>
   \<exists>tr2. body (tr @ [Ret c]) = (Inr y, tr2) \<and> tr' = tr2 @ [x]"
  by (auto simp: with_block_def ext_def split: option.splits prod.splits sum.splits)

lemma timed_loop_Inr:
  "timed_loop env c n ts tr = (Inr ts', tr') \<Longrightarrow>
   \<exists>ps. length ps = n \<and> ts' = ts @ map delta ps \<and> tr' = tr @ iterations c ps"
proof (induction n arbitrary: ts tr)
  case 0
  then show ?case by simp
next
  case (Suc n)
  let ?s = "time_time env tr"
  let ?tr2 = "tr @ [TimeTime ?s, Ret c]"
  let ?e = "time_time env ?tr2"
  from Suc.prems have ok: "raises env (tr @ [TimeTime ?s]) c = None"
    by (auto simp: ext_def Let_def split: option.splits)
  with Suc.prems
  have "timed_loop env c n (ts @ [?e - ?s]) (?tr2 @ [TimeTime ?e]) = (Inr ts', tr')"
    by (simp add: ext_def Let_def)
  from Suc.IH [OF this] obtain ps where ps: "length ps = n"
    "ts' = (ts @ [?e - ?s]) @ map delta ps" "tr' = (?tr2 @ [TimeTime ?e]) @ iterations c ps"
    by blast
  then have "length ((?s, ?e) # ps) = Suc n \<and> ts' = ts @ map delta ((?s, ?e) # ps)
      \<and> tr' = tr @ iterations c ((?s, ?e) # ps)"
    by (simp add: delta_def)
  then show ?case by blast
qed

lemma for_xrange_Inr:
  "for_xrange env c iters tr = (Inr ts, tr') \<Longrightarrow>
   \<exists>ps. length ps = nat iters \<and> xrange_ok iters \<and> ts = map delta ps \<and>
        tr' = tr @ iterations c ps"
  by (auto simp: for_xrange_def split: if_splits dest: timed_loop_Inr)

lemma feed_times_Inr:
  assumes "feed_times env target sz iters tr = (Inr ts, tr')"
  shows "\<exists>ps. length ps = nat iters \<and> xrange_ok iters \<and> ts = map delta ps \<and>
           tr' = tr @ feed_body target sz (random_rand env tr sz) ps"
  using assms unfolding feed_times_def feed_body_def
  by (fastforce dest!: bnd_Inr np_random_rand_Inr with_block_Inr ext_Inr for_xrange_Inr)

lemma fetch_times_Inr:
  assumes "fetch_times env target sz iters tr = (Inr ts, tr')"
  shows "\<exists>ps. length ps = nat iters \<and> xrange_ok iters \<and> ts = map delta ps \<and>
           tr' = tr @ fetch_body target sz ps"
  using assms unfolding fetch_times_def fetch_body_def
  by (fastforce dest!: bnd_Inr with_block_Inr ext_Inr for_xrange_Inr)

lemma print_and_report_Inr:
  "print_and_report env name sz iters (map delta ps) tr = (Inr u, tr') \<Longrightarrow>
   tr' = tr @ report_events name sz iters ps"
  unfolding print_and_report_def report_events_def
  by (fastforce dest!: bnd_Inr ext_Inr)

lemma benchmarkFeed_Inr:
  assumes "benchmarkFeed env name target sz iters tr = (Inr u, tr')"
  shows "\<exists>ps. length ps = nat iters \<and> xrange_ok iters \<and>
           tr' = tr @ feed_body target sz (random_rand env tr sz) ps @
                 report_events name sz iters ps"
  using assms unfolding benchmarkFeed_def
  by (fastforce dest!: bnd_Inr feed_times_Inr print_and_report_Inr)

lemma benchmarkFetch_Inr:
  assumes "benchmarkFetch env name target sz iters tr = (Inr u, tr')"
  shows "\<exists>ps. length ps = nat iters \<and> xrange_ok iters \<and>
           tr' = tr @ fetch_body target sz ps @ report_events name sz iters ps"
  using assms unfolding benchmarkFetch_def
  by (fastforce dest!: bnd_Inr fetch_times_Inr print_and_report_Inr)

subsection \<open>Reading the events of a completed measurement\<close>

lemma calls_append: "calls (xs @ ys) = calls xs @ calls ys"
  by (induction xs rule: calls.induct) simp_all

lemma calls_iterations: "calls (iterations c ps) = replicate (length ps) c"
  by (induction ps) auto

lemma samples_iterations: "samples (iterations c ps @ evs) = map delta ps @ samples evs"
  by (induction ps) (auto simp: delta_def)

lemma timed_calls_iterations:
  "timed_calls (iterations c ps @ evs) = replicate (length ps) c @ timed_calls evs"
  by (induction ps) auto

lemma untimed_calls_iterations: "untimed_calls (iterations c ps @ evs) = untimed_calls evs"
  by (induction ps) auto

lemma calls_feed_body:
  "calls (feed_body target sz v ps) =
     [NpRandomRand sz, TfGraph, TfPlaceholder sz, TfIdentity, TfSession target, RunFeed v] @
     replicate (length ps) (RunFeed v)"
  by (simp add: feed_body_def calls_append calls_iterations)

lemma calls_fetch_body:
  "calls (fetch_body target sz ps) =
     [TfGraph, TfVariable sz, TfSession target, RunInitializer, RunFetch] @
     replicate (length ps) RunFetch"
  by (simp add: fetch_body_def calls_append calls_iterations)

lemma calls_report_events:
  "calls (report_events name sz iters ps) =
     [Print (format_line name sz (median (map delta ps))),
      ReportBenchmark iters (median (map delta ps)) name]"
  by (simp add: report_events_def)

lemma samples_feed:
  "samples (feed_body target sz v ps @ report_events name sz iters ps) = map delta ps"
  by (simp add: feed_body_def report_events_def samples_iterations)

lemma samples_fetch:
  "samples (fetch_body target sz ps @ report_events name sz iters ps) = map delta ps"
  by (simp add: fetch_body_def report_events_def samples_iterations)

lemma timed_calls_feed:
  "timed_calls (feed_body target sz v ps @ report_events name sz iters ps) =
     replicate (length ps) (RunFeed v)"
  by (simp add: feed_body_def report_events_def timed_calls_iterations)

lemma timed_calls_fetch:
  "timed_calls (fetch_body target sz ps @ report_events name sz iters ps) =
     replicate (length ps) RunFetch"
  by (simp add: fetch_body_def report_events_def timed_calls_iterations)

lemma untimed_calls_feed:
  "untimed_calls (feed_body target sz v ps @ report_events name sz iters ps) =
     [NpRandomRand sz, TfGraph, TfPlaceholder sz, TfIdentity, TfSession target, RunFeed v,
      Print (format_line name sz (median (map delta ps))),
      ReportBenchmark iters (median (map delta ps)) name]"
  by (simp add: feed_body_def report_events_def untimed_calls_iterations)

lemma untimed_calls_fetch:
  "untimed_calls (fetch_body target sz ps @ report_events name sz iters ps) =
     [TfGraph, TfVariable sz, TfSession target, RunInitializer, RunFetch,
      Print (format_line name sz (median (map delta ps))),
      ReportBenchmark iters (median (map delta ps)) name]"
  by (simp add: fetch_body_def report_events_def untimed_calls_iterations)

subsection \<open>The fake service at work\<close>

lemma fake_simps:
  "raises (fake fail_at script) tr c = (if fail_at = Some (length tr) then Some Unavailable else None)"
  "time_time (fake fail_at script) = scripted_clock script"
  "random_rand (fake fail_at script) tr n = replicate (nat n) (1 / 4)"
  "server_target (fake fail_at script) tr = ''grpc://localhost:2222''"
  by (simp_all add: fake_def)

lemmas run_defs =
  benchmarkFeed_def benchmarkFetch_def feed_times_def fetch_times_def print_and_report_def
  bnd_def ext_def np_random_rand_def with_block_def for_xrange_def xrange_ok_def
  scripted_clock_def Let_def

lemma feed_example:
  "benchmarkFeed example_service ''t'' '''' 1 3 [] =
     (Inr (),
      [Ret (NpRandomRand 1), Ret TfGraph, Ret (TfPlaceholder 1), Ret TfIdentity,
       Ret (TfSession ''''), Ret (RunFeed [1 / 4]),
       TimeTime 0, Ret (RunFeed [1 / 4]), TimeTime (1 / 2),
       TimeTime 1, Ret (RunFeed [1 / 4]), TimeTime (11 / 10),
       TimeTime 2, Ret (RunFeed [1 / 4]), TimeTime (23 / 10),
       SessionExit, GraphExit,
       Ret (Print (format_line ''t'' 1 (Float (3 / 10)))),
       Ret (ReportBenchmark 3 (Float (3 / 10)) ''t'')])"
  by (simp add: example_service_def run_defs fake_simps numeral_3_eq_3 median_def)

lemma fetch_example:
  "benchmarkFetch example_service ''t'' '''' 1 3 [] =
     (Inr (),
      [Ret TfGraph, Ret (TfVariable 1), Ret (TfSession ''''), Ret RunInitializer,
       Ret RunFetch,
       TimeTime 0, Ret RunFetch, TimeTime (1 / 2),
       TimeTime 1, Ret RunFetch, TimeTime (11 / 10),
       TimeTime 2, Ret RunFetch, TimeTime (23 / 10),
       SessionExit, GraphExit,
       Ret (Print (format_line ''t'' 1 (Float (3 / 10)))),
       Ret (ReportBenchmark 3 (Float (3 / 10)) ''t'')])"
  by (simp add: example_service_def run_defs fake_simps numeral_3_eq_3 median_def)

lemma format_line_example: "format_line ''t'' 1 (Float (3 / 10)) = ''t 1 0.300000''"
  by (simp add: format_line_def fmt_d_def round_half_even_def six_digits_def
      dec_digits.simps digit_char_def Let_def)

subsection \<open>What a failing run leaves behind\<close>

lemma body_ok_mono: "body_ok None x \<Longrightarrow> body_ok r x"
  by (cases x) auto

lemma tidy_ext: "\<not> is_sink c \<Longrightarrow> tidy (ext env c)"
  by (auto simp: tidy_def ext_def split: option.splits)

lemma tidy_np_random_rand: "tidy (np_random_rand env sz)"
  by (auto simp: tidy_def np_random_rand_def split: option.splits)

lemma tidy_bnd:
  assumes "tidy m" and "\<And>x. tidy (f x)"
  shows "tidy (bnd m f)"
  unfolding tidy_def
proof
  fix tr
  obtain r tr1 where m: "m tr = (r, tr1)" by (cases "m tr")
  with assms(1) obtain evs where evs: "tr1 = tr @ evs" "\<forall>x\<in>set evs. body_ok (err r) x"
    unfolding tidy_def by (metis fst_conv snd_conv)
  show "\<exists>evs. snd (bnd m f tr) = tr @ evs \<and>
      (\<forall>x\<in>set evs. body_ok (err (fst (bnd m f tr))) x)"
  proof (cases r)
    case (Inl e)
    with m evs show ?thesis by (simp add: bnd_def)
  next
    case (Inr y)
    from assms(2) [of y] obtain evs2 where evs2: "snd (f y tr1) = tr1 @ evs2"
      "\<forall>x\<in>set evs2. body_ok (err (fst (f y tr1))) x"
      unfolding tidy_def by blast
    from evs(2) Inr have "\<forall>x\<in>set evs. body_ok (err (fst (f y tr1))) x"
      by (auto intro: body_ok_mono)
    with evs2 evs(1) have "snd (f y tr1) = tr @ (evs @ evs2) \<and>
        (\<forall>x\<in>set (evs @ evs2). body_ok (err (fst (f y tr1))) x)"
      by auto
    with m Inr show ?thesis by (auto simp: bnd_def)
  qed
qed

lemma tidy_with_block:
  assumes "\<not> is_sink c" and "leave = SessionExit \<or> leave = GraphExit" and "tidy body"
  shows "tidy (with_block env c leave body)"
  unfolding tidy_def
proof
  fix tr
  show "\<exists>evs. snd (with_block env c leave body tr) = tr @ evs \<and>
      (\<forall>x\<in>set evs. body_ok (err (fst (with_block env c leave body tr))) x)"
  proof (cases "raises env tr c")
    case (Some e)
    with assms(1) show ?thesis by (simp add: with_block_def ext_def)
  next
    case None
    from assms(3) obtain evs where evs: "snd (body (tr @ [Ret c])) = (tr @ [Ret c]) @ evs"
      "\<forall>x\<in>set evs. body_ok (err (fst (body (tr @ [Ret c])))) x"
      unfolding tidy_def by blast
    with assms(1,2) have "snd (with_block env c leave body tr) = tr @ (Ret c # evs @ [leave]) \<and>
        (\<forall>x\<in>set (Ret c # evs @ [leave]).
           body_ok (err (fst (with_block env c leave body tr))) x)"
      using None by (auto simp: with_block_def ext_def split: prod.splits)
    then show ?thesis by blast
  qed
qed

lemma tidy_timed_loop: "\<not> is_sink c \<Longrightarrow> tidy (timed_loop env c n ts)"
proof (induction n arbitrary: ts)
  case 0
  then show ?case by (simp add: tidy_def)
next
  case (Suc n)
  show ?case
    unfolding tidy_def
  proof
    fix tr
    let ?s = "time_time env tr"
    let ?tr2 = "tr @ [TimeTime ?s, Ret c]"
    let ?e = "time_time env ?tr2"
    show "\<exists>evs. snd (timed_loop env c (Suc n) ts tr) = tr @ evs \<and>
        (\<forall>x\<in>set evs. body_ok (err (fst (timed_loop env c (Suc n) ts tr))) x)"
    proof (cases "raises env (tr @ [TimeTime ?s]) c")
      case (Some e)
      with Suc.prems have "snd (timed_loop env c (Suc n) ts tr) = tr @ [TimeTime ?s, Raise c e] \<and>
          (\<forall>x\<in>set [TimeTime ?s, Raise c e].
             body_ok (err (fst (timed_loop env c (Suc n) ts tr))) x)"
        by (simp add: ext_def Let_def)
      then show ?thesis by blast
    next
      case None
      then have step: "timed_loop env c (Suc n) ts tr =
          timed_loop env c n (ts @ [?e - ?s]) (?tr2 @ [TimeTime ?e])"
        by (simp add: ext_def Let_def)
      from Suc.IH [OF Suc.prems, of "ts @ [?e - ?s]"] obtain evs where
        "snd (timed_loop env c n (ts @ [?e - ?s]) (?tr2 @ [TimeTime ?e])) =
           (?tr2 @ [TimeTime ?e]) @ evs"
        "\<forall>x\<in>set evs.
           body_ok (err (fst (timed_loop env c n (ts @ [?e - ?s]) (?tr2 @ [TimeTime ?e])))) x"
        unfolding tidy_def by blast
      with Suc.prems have "snd (timed_loop env c (Suc n) ts tr) =
          tr @ (TimeTime ?s # Ret c # TimeTime ?e # evs) \<and>
          (\<forall>x\<in>set (TimeTime ?s # Ret c # TimeTime ?e # evs).
             body_ok (err (fst (timed_loop env c (Suc n) ts tr))) x)"
        unfolding step by simp
      then show ?thesis by blast
    qed
  qed
qed

lemma tidy_for_xrange: "\<not> is_sink c \<Longrightarrow> tidy (for_xrange env c iters)"
proof (cases "xrange_ok iters")
  case True
  assume "\<not> is_sink c"
  then have "tidy (timed_loop env c (nat iters) [])" by (rule tidy_timed_loop)
  with True show ?thesis by (simp add: tidy_def for_xrange_def)
next
  case False
  then show ?thesis by (simp add: tidy_def for_xrange_def)
qed

lemma tidy_feed_times: "tidy (feed_times env target sz iters)"
  unfolding feed_times_def
  by (intro tidy_bnd tidy_with_block tidy_ext tidy_np_random_rand tidy_for_xrange) simp_all

lemma tidy_fetch_times: "tidy (fetch_times env target sz iters)"
  unfolding fetch_times_def
  by (intro tidy_bnd tidy_with_block tidy_ext tidy_for_xrange) simp_all

lemma body_ok_no_sink: "\<forall>x\<in>set evs. body_ok r x \<Longrightarrow> filter is_sink (calls evs) = []"
  by (induction evs rule: calls.induct) auto

lemma print_and_report_cases:
  assumes "print_and_report env name sz iters ts tr = (r, tr')"
  shows "(r = Inr () \<and>
          tr' = tr @ [Ret (Print (format_line name sz (median ts))),
                      Ret (ReportBenchmark iters (median ts) name)]) \<or>
         (\<exists>e. r = Inl e \<and>
            (tr' = tr @ [Raise (Print (format_line name sz (median ts))) e] \<or>
             tr' = tr @ [Ret (Print (format_line name sz (median ts))),
                         Raise (ReportBenchmark iters (median ts) name) e]))"
  using assms
  by (auto simp: print_and_report_def bnd_def ext_def split: option.splits)

lemma no_sink_no_print_no_report:
  "filter is_sink cs = [] \<Longrightarrow> filter is_print cs = [] \<and> filter is_report cs = []"
proof (induction cs)
  case Nil
  then show ?case by simp
next
  case (Cons c cs)
  then show ?case by (cases c) (auto split: if_splits)
qed

lemma failure_generic:
  assumes "tidy body"
    and "bnd body (print_and_report env name sz iters) tr = (Inl e, tr')"
  shows "filter is_report (calls (drop (length tr) tr')) = [] \<and>
         (\<forall>c e'. Raise c e' \<in> set (drop (length tr) tr') \<longrightarrow>
            e' = e \<and> (service_call c \<longrightarrow> filter is_print (calls (drop (length tr) tr')) = []))"
proof -
  obtain rb tr1 where body: "body tr = (rb, tr1)" by (cases "body tr")
  with assms(1) obtain evs where evs: "tr1 = tr @ evs" "\<forall>x\<in>set evs. body_ok (err rb) x"
    unfolding tidy_def by (metis fst_conv snd_conv)
  from evs(2) have quiet: "filter is_print (calls evs) = []" "filter is_report (calls evs) = []"
    using body_ok_no_sink no_sink_no_print_no_report by blast+
  show ?thesis
  proof (cases rb)
    case (Inl e0)
    with body assms(2) have "e0 = e" "tr' = tr1"
      by (simp_all add: bnd_def)
    with evs Inl quiet show ?thesis by auto
  next
    case (Inr ts)
    with body assms(2) have "print_and_report env name sz iters ts tr1 = (Inl e, tr')"
      by (simp add: bnd_def)
    then have tail: "tr' = tr1 @ [Raise (Print (format_line name sz (median ts))) e] \<or>
        tr' = tr1 @ [Ret (Print (format_line name sz (median ts))),
                     Raise (ReportBenchmark iters (median ts) name) e]"
      by (auto dest: print_and_report_cases)
    from evs(2) Inr have no_raise: "Raise c e' \<notin> set evs" for c e'
      by auto
    from tail show ?thesis
    proof
      assume "tr' = tr1 @ [Raise (Print (format_line name sz (median ts))) e]"
      with evs(1) quiet no_raise show ?thesis by (auto simp: calls_append)
    next
      assume "tr' = tr1 @ [Ret (Print (format_line name sz (median ts))),
                     Raise (ReportBenchmark iters (median ts) name) e]"
      with evs(1) quiet no_raise show ?thesis by (auto simp: calls_append)
    qed
  qed
qed

lemma feed_failure_example:
  "benchmarkFeed (failing_service 10) ''t'' '''' 1 3 [] =
     (Inl Unavailable,
      [Ret (NpRandomRand 1), Ret TfGraph, Ret (TfPlaceholder 1), Ret TfIdentity,
       Ret (TfSession ''''), Ret (RunFeed [1 / 4]),
       TimeTime 0, Ret (RunFeed [1 / 4]), TimeTime (1 / 2),
       TimeTime 1, Raise (RunFeed [1 / 4]) Unavailable,
       SessionExit, GraphExit])"
  by (simp add: failing_service_def run_defs fake_simps numeral_3_eq_3)

lemma fetch_failure_example:
  "benchmarkFetch (failing_service 3) ''t'' '''' 1 3 [] =
     (Inl Unavailable,
      [Ret TfGraph, Ret (TfVariable 1), Ret (TfSession ''''),
       Raise RunInitializer Unavailable, SessionExit, GraphExit])"
  by (simp add: failing_service_def run_defs fake_simps numeral_3_eq_3)

subsection \<open>What comes before the first clock reading of a fetch measurement\<close>

lemma for_xrange_extends:
  "\<not> is_sink c \<Longrightarrow> \<exists>evs. snd (for_xrange env c iters tr) = tr @ evs"
  using tidy_for_xrange [of c env iters] unfolding tidy_def by blast

lemma fetch_times_events:
  assumes "fetch_times env target sz iters tr = (r, tr')"
  shows "\<exists>evs. tr' = tr @ evs \<and>
           (filter is_reading evs = [] \<or>
            (\<exists>rest. evs = [Ret TfGraph, Ret (TfVariable sz), Ret (TfSession target),
                            Ret RunInitializer, Ret RunFetch] @ rest))"
proof -
  let ?tr5 = "tr @ [Ret TfGraph, Ret (TfVariable sz), Ret (TfSession target),
                     Ret RunInitializer, Ret RunFetch]"
  obtain evs where "snd (for_xrange env RunFetch iters ?tr5) = ?tr5 @ evs"
    using for_xrange_extends [of RunFetch env iters ?tr5] by auto
  with assms show ?thesis
    by (auto simp: fetch_times_def with_block_def bnd_def ext_def
        split: option.splits prod.splits sum.splits)
qed

lemma prefix_before_reading:
  "xs @ ys = pre @ TimeTime t # post \<Longrightarrow> filter is_reading xs = [] \<Longrightarrow>
   \<exists>mid. pre = xs @ mid"
proof (induction xs arbitrary: pre)
  case Nil
  then show ?case by simp
next
  case (Cons x xs)
  show ?case
  proof (cases pre)
    case Nil
    with Cons.prems show ?thesis by auto
  next
    case (Cons p pre')
    with Cons.prems have "x = p" "xs @ ys = pre' @ TimeTime t # post"
      "filter is_reading xs = []"
      by (auto split: if_splits)
    with Cons.IH [of pre'] Cons show ?thesis by auto
  qed
qed

lemma no_reading_no_split:
  "filter is_reading evs = [] \<Longrightarrow> evs \<noteq> pre @ TimeTime t # post"
  by (auto simp: filter_empty_conv)

subsection \<open>The suites\<close>

lemma samples_feed_then:
  "samples (feed_body target sz v ps @ report_events name sz iters ps @ evs) =
     map delta ps @ samples evs"
  by (simp add: feed_body_def report_events_def samples_iterations)

lemma samples_fetch_then:
  "samples (fetch_body target sz ps @ report_events name sz iters ps @ evs) =
     map delta ps @ samples evs"
  by (simp add: fetch_body_def report_events_def samples_iterations)

lemma benchmarkDirectSession_Inr:
  assumes "benchmarkDirectSession env tr = (Inr (), tr')"
  shows "\<exists>v1 v2 ps1 ps2 ps3 ps4.
      length ps1 = 5000 \<and> length ps2 = 200 \<and> length ps3 = 5000 \<and> length ps4 = 100 \<and>
      tr' = tr @
        feed_body '''' 1 v1 ps1 @
        report_events ''benchmark_session_feed_direct_4B'' 1 5000 ps1 @
        feed_body '''' (2 ^ 20) v2 ps2 @
        report_events ''benchmark_session_feed_direct_4MB'' (2 ^ 20) 200 ps2 @
        fetch_body '''' 1 ps3 @
        report_events ''benchmark_session_fetch_direct_4B'' 1 5000 ps3 @
        fetch_body '''' (2 ^ 20) ps4 @
        report_events ''benchmark_session_fetch_direct_4MB'' (2 ^ 20) 100 ps4"
proof -
  from assms obtain tr1 tr2 tr3 where
    "benchmarkFeed env ''benchmark_session_feed_direct_4B'' '''' 1 5000 tr = (Inr (), tr1)"
    "benchmarkFeed env ''benchmark_session_feed_direct_4MB'' '''' (2 ^ 20) 200 tr1 = (Inr (), tr2)"
    "benchmarkFetch env ''benchmark_session_fetch_direct_4B'' '''' 1 5000 tr2 = (Inr (), tr3)"
    "benchmarkFetch env ''benchmark_session_fetch_direct_4MB'' '''' (2 ^ 20) 100 tr3 = (Inr (), tr')"
    unfolding benchmarkDirectSession_def by (fastforce dest!: bnd_Inr)
  then obtain ps1 ps2 ps3 ps4 where
    "length ps1 = nat 5000" "length ps2 = nat 200" "length ps3 = nat 5000" "length ps4 = nat 100"
    "tr1 = tr @ feed_body '''' 1 (random_rand env tr 1) ps1 @
       report_events ''benchmark_session_feed_direct_4B'' 1 5000 ps1"
    "tr2 = tr1 @ feed_body '''' (2 ^ 20) (random_rand env tr1 (2 ^ 20)) ps2 @
       report_events ''benchmark_session_feed_direct_4MB'' (2 ^ 20) 200 ps2"
    "tr3 = tr2 @ fetch_body '''' 1 ps3 @
       report_events ''benchmark_session_fetch_direct_4B'' 1 5000 ps3"
    "tr' = tr3 @ fetch_body '''' (2 ^ 20) ps4 @
       report_events ''benchmark_session_fetch_direct_4MB'' (2 ^ 20) 100 ps4"
    by (metis benchmarkFeed_Inr benchmarkFetch_Inr)
  then have "length ps1 = 5000 \<and> length ps2 = 200 \<and> length ps3 = 5000 \<and> length ps4 = 100 \<and>
      tr' = tr @
        feed_body '''' 1 (random_rand env tr 1) ps1 @
        report_events ''benchmark_session_feed_direct_4B'' 1 5000 ps1 @
        feed_body '''' (2 ^ 20) (random_rand env tr1 (2 ^ 20)) ps2 @
        report_events ''benchmark_session_feed_direct_4MB'' (2 ^ 20) 200 ps2 @
        fetch_body '''' 1 ps3 @
        report_events ''benchmark_session_fetch_direct_4B'' 1 5000 ps3 @
        fetch_body '''' (2 ^ 20) ps4 @
        report_events ''benchmark_session_fetch_direct_4MB'' (2 ^ 20) 100 ps4"
    by simp
  then show ?thesis by blast
qed

lemma benchmarkGrpcSession_Inr:
  assumes "benchmarkGrpcSession env tr = (Inr (), tr')"
  shows "\<exists>v1 v2 ps1 ps2 ps3 ps4.
      length ps1 = 10000 \<and> length ps2 = 100 \<and> length ps3 = 20000 \<and> length ps4 = 100 \<and>
      tr' = tr @ [Ret CreateLocalServer] @
        feed_body (server_target env tr) 1 v1 ps1 @
        report_events ''benchmark_session_feed_grpc_4B'' 1 10000 ps1 @
        [Ret (SessionReset (server_target env tr))] @
        feed_body (server_target env tr) (2 ^ 20) v2 ps2 @
        report_events ''benchmark_session_feed_grpc_4MB'' (2 ^ 20) 100 ps2 @
        [Ret (SessionReset (server_target env tr))] @
        fetch_body (server_target env tr) 1 ps3 @
        report_events ''benchmark_session_fetch_grpc_4B'' 1 20000 ps3 @
        [Ret (SessionReset (server_target env tr))] @
        fetch_body (server_target env tr) (2 ^ 20) ps4 @
        report_events ''benchmark_session_fetch_grpc_4MB'' (2 ^ 20) 100 ps4 @
        [Ret (SessionReset (server_target env tr))]"
proof -
  let ?t = "server_target env tr"
  let ?tr0 = "tr @ [Ret CreateLocalServer]"
  from assms obtain tr1 tr2 tr3 tr4 where
    "benchmarkFeed env ''benchmark_session_feed_grpc_4B'' ?t 1 10000 ?tr0 = (Inr (), tr1)"
    "benchmarkFeed env ''benchmark_session_feed_grpc_4MB'' ?t (2 ^ 20) 100
       (tr1 @ [Ret (SessionReset ?t)]) = (Inr (), tr2)"
    "benchmarkFetch env ''benchmark_session_fetch_grpc_4B'' ?t 1 20000
       (tr2 @ [Ret (SessionReset ?t)]) = (Inr (), tr3)"
    "benchmarkFetch env ''benchmark_session_fetch_grpc_4MB'' ?t (2 ^ 20) 100
       (tr3 @ [Ret (SessionReset ?t)]) = (Inr (), tr4)"
    "tr' = tr4 @ [Ret (SessionReset ?t)]"
    unfolding benchmarkGrpcSession_def
    by (fastforce dest!: bnd_Inr create_local_server_Inr ext_Inr)
  then obtain ps1 ps2 ps3 ps4 where
    "length ps1 = nat 10000" "length ps2 = nat 100" "length ps3 = nat 20000"
    "length ps4 = nat 100"
    "tr1 = ?tr0 @ feed_body ?t 1 (random_rand env ?tr0 1) ps1 @
       report_events ''benchmark_session_feed_grpc_4B'' 1 10000 ps1"
    "tr2 = (tr1 @ [Ret (SessionReset ?t)]) @
       feed_body ?t (2 ^ 20) (random_rand env (tr1 @ [Ret (SessionReset ?t)]) (2 ^ 20)) ps2 @
       report_events ''benchmark_session_feed_grpc_4MB'' (2 ^ 20) 100 ps2"
    "tr3 = (tr2 @ [Ret (SessionReset ?t)]) @ fetch_body ?t 1 ps3 @
       report_events ''benchmark_session_fetch_grpc_4B'' 1 20000 ps3"
    "tr4 = (tr3 @ [Ret (SessionReset ?t)]) @ fetch_body ?t (2 ^ 20) ps4 @
       report_events ''benchmark_session_fetch_grpc_4MB'' (2 ^ 20) 100 ps4"
    by (metis benchmarkFeed_Inr benchmarkFetch_Inr)
  with \<open>tr' = tr4 @ [Ret (SessionReset ?t)]\<close>
  have "length ps1 = 10000 \<and> length ps2 = 100 \<and> length ps3 = 20000 \<and> length ps4 = 100 \<and>
      tr' = tr @ [Ret CreateLocalServer] @
        feed_body ?t 1 (random_rand env ?tr0 1) ps1 @
        report_events ''benchmark_session_feed_grpc_4B'' 1 10000 ps1 @
        [Ret (SessionReset ?t)] @
        feed_body ?t (2 ^ 20) (random_rand env (tr1 @ [Ret (SessionReset ?t)]) (2 ^ 20)) ps2 @
        report_events ''benchmark_session_feed_grpc_4MB'' (2 ^ 20) 100 ps2 @
        [Ret (SessionReset ?t)] @
        fetch_body ?t 1 ps3 @
        report_events ''benchmark_session_fetch_grpc_4B'' 1 20000 ps3 @
        [Ret (SessionReset ?t)] @
        fetch_body ?t (2 ^ 20) ps4 @
        report_events ''benchmark_session_fetch_grpc_4MB'' (2 ^ 20) 100 ps4 @
        [Ret (SessionReset ?t)]"
    by simp
  then show ?thesis by blast
qed

subsection \<open>A service that never raises\<close>

lemma reliable_fake: "reliable (fake None script)"
  by (simp add: reliable_def fake_def)

lemma reliable_timed_loop:
  "reliable env \<Longrightarrow> \<exists>ts' tr'. timed_loop env c n ts tr = (Inr ts', tr')"
  by (induction n arbitrary: ts tr) (simp_all add: reliable_def ext_def Let_def)

lemma reliable_benchmarkFeed:
  assumes "reliable env" and "xrange_ok iters"
  shows "\<exists>tr'. benchmarkFeed env name target sz iters tr = (Inr (), tr')"
proof -
  let ?v = "random_rand env tr sz"
  let ?tr6 = "tr @ [Ret (NpRandomRand sz), Ret TfGraph, Ret (TfPlaceholder sz), Ret TfIdentity,
                     Ret (TfSession target), Ret (RunFeed ?v)]"
  from assms(1) obtain ts tr2 where
    "timed_loop env (RunFeed ?v) (nat iters) [] ?tr6 = (Inr ts, tr2)"
    using reliable_timed_loop by blast
  with assms show ?thesis
    by (simp add: benchmarkFeed_def feed_times_def print_and_report_def bnd_def ext_def
        np_random_rand_def with_block_def for_xrange_def reliable_def)
qed

lemma reliable_benchmarkFetch:
  assumes "reliable env" and "xrange_ok iters"
  shows "\<exists>tr'. benchmarkFetch env name target sz iters tr = (Inr (), tr')"
proof -
  let ?tr5 = "tr @ [Ret TfGraph, Ret (TfVariable sz), Ret (TfSession target),
                     Ret RunInitializer, Ret RunFetch]"
  from assms(1) obtain ts tr2 where
    "timed_loop env RunFetch (nat iters) [] ?tr5 = (Inr ts, tr2)"
    using reliable_timed_loop by blast
  with assms show ?thesis
    by (simp add: benchmarkFetch_def fetch_times_def print_and_report_def bnd_def ext_def
        with_block_def for_xrange_def reliable_def)
qed

lemma xrange_ok_100: "xrange_ok 100" and xrange_ok_200: "xrange_ok 200"
  and xrange_ok_5000: "xrange_ok 5000" and xrange_ok_10000: "xrange_ok 10000"
  and xrange_ok_20000: "xrange_ok 20000"
  by (simp_all add: xrange_ok_def)

lemma reliable_benchmarkDirectSession:
  assumes "reliable env"
  shows "fst (benchmarkDirectSession env tr) = Inr ()"
proof -
  from assms obtain tr1 where
    1: "benchmarkFeed env ''benchmark_session_feed_direct_4B'' '''' 1 5000 tr = (Inr (), tr1)"
    using reliable_benchmarkFeed [OF _ xrange_ok_5000] by blast
  from assms obtain tr2 where
    2: "benchmarkFeed env ''benchmark_session_feed_direct_4MB'' '''' (2 ^ 20) 200 tr1 = (Inr (), tr2)"
    using reliable_benchmarkFeed [OF _ xrange_ok_200] by blast
  from assms obtain tr3 where
    3: "benchmarkFetch env ''benchmark_session_fetch_direct_4B'' '''' 1 5000 tr2 = (Inr (), tr3)"
    using reliable_benchmarkFetch [OF _ xrange_ok_5000] by blast
  from assms obtain tr4 where
    4: "benchmarkFetch env ''benchmark_session_fetch_direct_4MB'' '''' (2 ^ 20) 100 tr3 = (Inr (), tr4)"
    using reliable_benchmarkFetch [OF _ xrange_ok_100] by blast
  from 1 2 3 4 show ?thesis
    by (simp add: benchmarkDirectSession_def bnd_def)
qed

lemma reliable_benchmarkGrpcSession:
  assumes "reliable env"
  shows "fst (benchmarkGrpcSession env tr) = Inr ()"
proof -
  let ?t = "server_target env tr"
  let ?tr0 = "tr @ [Ret CreateLocalServer]"
  from assms obtain tr1 where
    1: "benchmarkFeed env ''benchmark_session_feed_grpc_4B'' ?t 1 10000 ?tr0 = (Inr (), tr1)"
    using reliable_benchmarkFeed [OF _ xrange_ok_10000] by blast
  from assms obtain tr2 where
    2: "benchmarkFeed env ''benchmark_session_feed_grpc_4MB'' ?t (2 ^ 20) 100
          (tr1 @ [Ret (SessionReset ?t)]) = (Inr (), tr2)"
    using reliable_benchmarkFeed [OF _ xrange_ok_100] by blast
  from assms obtain tr3 where
    3: "benchmarkFetch env ''benchmark_session_fetch_grpc_4B'' ?t 1 20000
          (tr2 @ [Ret (SessionReset ?t)]) = (Inr (), tr3)"
    using reliable_benchmarkFetch [OF _ xrange_ok_20000] by blast
  from assms obtain tr4 where
    4: "benchmarkFetch env ''benchmark_session_fetch_grpc_4MB'' ?t (2 ^ 20) 100
          (tr3 @ [Ret (SessionReset ?t)]) = (Inr (), tr4)"
    using reliable_benchmarkFetch [OF _ xrange_ok_100] by blast
  from assms 1 2 3 4 show ?thesis
    by (simp add: benchmarkGrpcSession_def bnd_def create_local_server_def ext_def reliable_def)
qed

lemma reliable_example_service: "reliable example_service"
  by (simp add: example_service_def reliable_fake)

lemma example_service_target: "server_target example_service tr = ''grpc://localhost:2222''"
  by (simp add: example_service_def fake_simps)

section \<open>The claims\<close>

text \<open>
  C1, as stated: each case of the local suite has the iteration count of the matching case
  of the remote suite. It has not: against the same service the local suite reports
  5000, 200, 5000 and 100 iterations, the remote suite 10000, 100, 20000 and 100.
\<close>

theorem suites_iteration_counts_counterexample:
  "fst (benchmarkDirectSession example_service []) = Inr () \<and>
   fst (benchmarkGrpcSession example_service []) = Inr () \<and>
   map report_iters (filter is_report (calls (snd (benchmarkDirectSession example_service [])))) =
     [5000, 200, 5000, 100] \<and>
   map report_iters (filter is_report (calls (snd (benchmarkGrpcSession example_service [])))) =
     [10000, 100, 20000, 100] \<and>
   map report_iters (filter is_report (calls (snd (benchmarkDirectSession example_service [])))) \<noteq>
   map report_iters (filter is_report (calls (snd (benchmarkGrpcSession example_service []))))"
proof -
  have ok1: "fst (benchmarkDirectSession example_service []) = Inr ()"
    by (rule reliable_benchmarkDirectSession [OF reliable_example_service])
  have ok2: "fst (benchmarkGrpcSession example_service []) = Inr ()"
    by (rule reliable_benchmarkGrpcSession [OF reliable_example_service])
  from ok1 have "benchmarkDirectSession example_service [] =
      (Inr (), snd (benchmarkDirectSession example_service []))"
    by (simp add: prod_eq_iff)
  from benchmarkDirectSession_Inr [OF this]
  have 1: "map report_iters
      (filter is_report (calls (snd (benchmarkDirectSession example_service [])))) =
      [5000, 200, 5000, 100]"
    by (auto simp: calls_append calls_feed_body calls_fetch_body calls_report_events
        filter_replicate)
  from ok2 have "benchmarkGrpcSession example_service [] =
      (Inr (), snd (benchmarkGrpcSession example_service []))"
    by (simp add: prod_eq_iff)
  from benchmarkGrpcSession_Inr [OF this]
  have 2: "map report_iters
      (filter is_report (calls (snd (benchmarkGrpcSession example_service [])))) =
      [10000, 100, 20000, 100]"
    by (auto simp: calls_append calls_feed_body calls_fetch_body calls_report_events
        filter_replicate)
  show ?thesis
    unfolding 1 2 using ok1 ok2 by simp
qed

text \<open>
  C1, amended: a completed local suite runs the four measurements of the remote suite in
  the same order (feed of 1 and of \<open>2\<^sup>2\<^sup>0\<close> elements, then fetch of 1 and of \<open>2\<^sup>2\<^sup>0\<close>
  elements), each on the empty target and with no reset anywhere, but with its own
  iteration counts: 5000 and 200 for feed, 5000 and 100 for fetch, where the remote
  suite has 10000 and 100 for feed, 20000 and 100 for fetch.
\<close>

theorem suites_same_cases_own_counts:
  "(benchmarkDirectSession env tr = (Inr (), tr1) \<longrightarrow>
      length (samples (drop (length tr) tr1)) = 5000 + 200 + 5000 + 100 \<and>
      (\<exists>m1 m2 m3 m4.
         filter case_mark (calls (drop (length tr) tr1)) =
           [TfPlaceholder 1, TfSession '''',
            ReportBenchmark 5000 m1 ''benchmark_session_feed_direct_4B'',
            TfPlaceholder (2 ^ 20), TfSession '''',
            ReportBenchmark 200 m2 ''benchmark_session_feed_direct_4MB'',
            TfVariable 1, TfSession '''',
            ReportBenchmark 5000 m3 ''benchmark_session_fetch_direct_4B'',
            TfVariable (2 ^ 20), TfSession '''',
            ReportBenchmark 100 m4 ''benchmark_session_fetch_direct_4MB''])) \<and>
   (benchmarkGrpcSession env tr = (Inr (), tr2) \<longrightarrow>
      length (samples (drop (length tr) tr2)) = 10000 + 100 + 20000 + 100 \<and>
      (\<exists>m1 m2 m3 m4.
         filter case_mark (calls (drop (length tr) tr2)) =
           [TfPlaceholder 1, TfSession (server_target env tr),
            ReportBenchmark 10000 m1 ''benchmark_session_feed_grpc_4B'',
            SessionReset (server_target env tr),
            TfPlaceholder (2 ^ 20), TfSession (server_target env tr),
            ReportBenchmark 100 m2 ''benchmark_session_feed_grpc_4MB'',
            SessionReset (server_target env tr),
            TfVariable 1, TfSession (server_target env tr),
            ReportBenchmark 20000 m3 ''benchmark_session_fetch_grpc_4B'',
            SessionReset (server_target env tr),
            TfVariable (2 ^ 20), TfSession (server_target env tr),
            ReportBenchmark 100 m4 ''benchmark_session_fetch_grpc_4MB'',
            SessionReset (server_target env tr)]))"
proof (intro conjI impI)
  assume "benchmarkDirectSession env tr = (Inr (), tr1)"
  from benchmarkDirectSession_Inr [OF this] obtain v1 v2 ps1 ps2 ps3 ps4 where ps:
    "length ps1 = 5000" "length ps2 = 200" "length ps3 = 5000" "length ps4 = 100"
    "tr1 = tr @
        feed_body '''' 1 v1 ps1 @
        report_events ''benchmark_session_feed_direct_4B'' 1 5000 ps1 @
        feed_body '''' (2 ^ 20) v2 ps2 @
        report_events ''benchmark_session_feed_direct_4MB'' (2 ^ 20) 200 ps2 @
        fetch_body '''' 1 ps3 @
        report_events ''benchmark_session_fetch_direct_4B'' 1 5000 ps3 @
        fetch_body '''' (2 ^ 20) ps4 @
        report_events ''benchmark_session_fetch_direct_4MB'' (2 ^ 20) 100 ps4"
    by blast
  from ps show "length (samples (drop (length tr) tr1)) = 5000 + 200 + 5000 + 100"
    by (simp add: samples_feed_then samples_fetch_then samples_fetch)
  from ps(5) show "\<exists>m1 m2 m3 m4.
      filter case_mark (calls (drop (length tr) tr1)) =
        [TfPlaceholder 1, TfSession '''',
         ReportBenchmark 5000 m1 ''benchmark_session_feed_direct_4B'',
         TfPlaceholder (2 ^ 20), TfSession '''',
         ReportBenchmark 200 m2 ''benchmark_session_feed_direct_4MB'',
         TfVariable 1, TfSession '''',
         ReportBenchmark 5000 m3 ''benchmark_session_fetch_direct_4B'',
         TfVariable (2 ^ 20), TfSession '''',
         ReportBenchmark 100 m4 ''benchmark_session_fetch_direct_4MB'']"
    by (simp add: calls_append calls_feed_body calls_fetch_body calls_report_events
        filter_replicate)
next
  assume "benchmarkGrpcSession env tr = (Inr (), tr2)"
  from benchmarkGrpcSession_Inr [OF this] obtain v1 v2 ps1 ps2 ps3 ps4 where ps:
    "length ps1 = 10000" "length ps2 = 100" "length ps3 = 20000" "length ps4 = 100"
    "tr2 = tr @ [Ret CreateLocalServer] @
        feed_body (server_target env tr) 1 v1 ps1 @
        report_events ''benchmark_session_feed_grpc_4B'' 1 10000 ps1 @
        [Ret (SessionReset (server_target env tr))] @
        feed_body (server_target env tr) (2 ^ 20) v2 ps2 @
        report_events ''benchmark_session_feed_grpc_4MB'' (2 ^ 20) 100 ps2 @
        [Ret (SessionReset (server_target env tr))] @
        fetch_body (server_target env tr) 1 ps3 @
        report_events ''benchmark_session_fetch_grpc_4B'' 1 20000 ps3 @
        [Ret (SessionReset (server_target env tr))] @
        fetch_body (server_target env tr) (2 ^ 20) ps4 @
        report_events ''benchmark_session_fetch_grpc_4MB'' (2 ^ 20) 100 ps4 @
        [Ret (SessionReset (server_target env tr))]"
    by blast
  have skip: "samples (Ret c # evs) = samples evs" for c evs
    by simp
  from ps show "length (samples (drop (length tr) tr2)) = 10000 + 100 + 20000 + 100"
    by (simp add: samples_feed_then samples_fetch_then)
  from ps(5) show "\<exists>m1 m2 m3 m4.
      filter case_mark (calls (drop (length tr) tr2)) =
        [TfPlaceholder 1, TfSession (server_target env tr),
         ReportBenchmark 10000 m1 ''benchmark_session_feed_grpc_4B'',
         SessionReset (server_target env tr),
         TfPlaceholder (2 ^ 20), TfSession (server_target env tr),
         ReportBenchmark 100 m2 ''benchmark_session_feed_grpc_4MB'',
         SessionReset (server_target env tr),
         TfVariable 1, TfSession (server_target env tr),
         ReportBenchmark 20000 m3 ''benchmark_session_fetch_grpc_4B'',
         SessionReset (server_target env tr),
         TfVariable (2 ^ 20), TfSession (server_target env tr),
         ReportBenchmark 100 m4 ''benchmark_session_fetch_grpc_4MB'',
         SessionReset (server_target env tr)]"
    by (simp add: calls_append calls_feed_body calls_fetch_body calls_report_events
        filter_replicate)
qed

theorem suites_same_cases_own_counts_witness:
  "fst (benchmarkDirectSession example_service []) = Inr () \<and>
   length (samples (snd (benchmarkDirectSession example_service []))) = 10300 \<and>
   (\<exists>m1 m2 m3 m4.
      filter case_mark (calls (snd (benchmarkDirectSession example_service []))) =
        [TfPlaceholder 1, TfSession '''',
         ReportBenchmark 5000 m1 ''benchmark_session_feed_direct_4B'',
         TfPlaceholder 1048576, TfSession '''',
         ReportBenchmark 200 m2 ''benchmark_session_feed_direct_4MB'',
         TfVariable 1, TfSession '''',
         ReportBenchmark 5000 m3 ''benchmark_session_fetch_direct_4B'',
         TfVariable 1048576, TfSession '''',
         ReportBenchmark 100 m4 ''benchmark_session_fetch_direct_4MB'']) \<and>
   fst (benchmarkGrpcSession example_service []) = Inr () \<and>
   length (samples (snd (benchmarkGrpcSession example_service []))) = 30200 \<and>
   (\<exists>m1 m2 m3 m4.
      filter case_mark (calls (snd (benchmarkGrpcSession example_service []))) =
        [TfPlaceholder 1, TfSession ''grpc://localhost:2222'',
         ReportBenchmark 10000 m1 ''benchmark_session_feed_grpc_4B'',
         SessionReset ''grpc://localhost:2222'',
         TfPlaceholder 1048576, TfSession ''grpc://localhost:2222'',
         ReportBenchmark 100 m2 ''benchmark_session_feed_grpc_4MB'',
         SessionReset ''grpc://localhost:2222'',
         TfVariable 1, TfSession ''grpc://localhost:2222'',
         ReportBenchmark 20000 m3 ''benchmark_session_fetch_grpc_4B'',
         SessionReset ''grpc://localhost:2222'',
         TfVariable 1048576, TfSession ''grpc://localhost:2222'',
         ReportBenchmark 100 m4 ''benchmark_session_fetch_grpc_4MB'',
         SessionReset ''grpc://localhost:2222''])"
proof -
  have ok1: "fst (benchmarkDirectSession example_service []) = Inr ()"
    by (rule reliable_benchmarkDirectSession [OF reliable_example_service])
  have ok2: "fst (benchmarkGrpcSession example_service []) = Inr ()"
    by (rule reliable_benchmarkGrpcSession [OF reliable_example_service])
  from suites_same_cases_own_counts [of example_service "[]"
      "snd (benchmarkDirectSession example_service [])"
      "snd (benchmarkGrpcSession example_service [])"] ok1 ok2
  show ?thesis
    by (simp add: prod_eq_iff example_service_target)
qed

text \<open>
  C2, as stated: every measurement call with at least one iteration makes \<open>iters\<close> timed
  \<^verbatim>\<open>session.run\<close> calls and exactly one untimed one. This fails for \<^verbatim>\<open>_benchmarkFetch\<close>: with
  three iterations it runs the variable's initializer and the warm-up fetch before the
  three timed fetches, which makes two untimed runs.
\<close>

theorem fetch_untimed_runs_counterexample:
  "fst (benchmarkFetch example_service ''t'' '''' 1 3 []) = Inr () \<and>
   length (samples (snd (benchmarkFetch example_service ''t'' '''' 1 3 []))) = 3 \<and>
   filter is_run (timed_calls (snd (benchmarkFetch example_service ''t'' '''' 1 3 []))) =
     [RunFetch, RunFetch, RunFetch] \<and>
   filter is_run (untimed_calls (snd (benchmarkFetch example_service ''t'' '''' 1 3 []))) =
     [RunInitializer, RunFetch] \<and>
   length (filter is_run (untimed_calls (snd (benchmarkFetch example_service ''t'' '''' 1 3 [])))) \<noteq> 1"
  by (simp add: fetch_example)

text \<open>
  C2, amended: for at least one iteration, a completed measurement call reports the median
  of exactly \<open>iters\<close> samples, one for each of exactly \<open>iters\<close> timed \<^verbatim>\<open>session.run\<close> calls of
  the measured operation. \<^verbatim>\<open>_benchmarkFeed\<close> makes exactly one untimed \<^verbatim>\<open>session.run\<close> call
  besides, the warm-up; \<^verbatim>\<open>_benchmarkFetch\<close> makes exactly two, the initializer of the
  variable and then the warm-up.
\<close>

theorem measurement_timed_and_untimed_runs:
  assumes "1 \<le> iters"
  shows
    "(benchmarkFeed env name target sz iters tr = (Inr (), tr1) \<longrightarrow>
        length (samples (drop (length tr) tr1)) = nat iters \<and>
        filter is_report (calls (drop (length tr) tr1)) =
          [ReportBenchmark iters (median (samples (drop (length tr) tr1))) name] \<and>
        timed_calls (drop (length tr) tr1) =
          replicate (nat iters) (RunFeed (random_rand env tr sz)) \<and>
        filter is_run (untimed_calls (drop (length tr) tr1)) =
          [RunFeed (random_rand env tr sz)]) \<and>
     (benchmarkFetch env name target sz iters tr = (Inr (), tr2) \<longrightarrow>
        length (samples (drop (length tr) tr2)) = nat iters \<and>
        filter is_report (calls (drop (length tr) tr2)) =
          [ReportBenchmark iters (median (samples (drop (length tr) tr2))) name] \<and>
        timed_calls (drop (length tr) tr2) = replicate (nat iters) RunFetch \<and>
        filter is_run (untimed_calls (drop (length tr) tr2)) = [RunInitializer, RunFetch])"
proof (intro conjI impI)
  assume "benchmarkFeed env name target sz iters tr = (Inr (), tr1)"
  then obtain ps where ps: "length ps = nat iters"
    "tr1 = tr @ feed_body target sz (random_rand env tr sz) ps @ report_events name sz iters ps"
    by (blast dest: benchmarkFeed_Inr)
  from ps show "length (samples (drop (length tr) tr1)) = nat iters"
    by (simp add: samples_feed)
  from ps show "filter is_report (calls (drop (length tr) tr1)) =
      [ReportBenchmark iters (median (samples (drop (length tr) tr1))) name]"
    by (simp add: samples_feed calls_append calls_feed_body calls_report_events)
  from ps show "timed_calls (drop (length tr) tr1) =
      replicate (nat iters) (RunFeed (random_rand env tr sz))"
    by (simp add: timed_calls_feed)
  from ps show "filter is_run (untimed_calls (drop (length tr) tr1)) =
      [RunFeed (random_rand env tr sz)]"
    by (simp add: untimed_calls_feed)
next
  assume "benchmarkFetch env name target sz iters tr = (Inr (), tr2)"
  then obtain ps where ps: "length ps = nat iters"
    "tr2 = tr @ fetch_body target sz ps @ report_events name sz iters ps"
    by (blast dest: benchmarkFetch_Inr)
  from ps show "length (samples (drop (length tr) tr2)) = nat iters"
    by (simp add: samples_fetch)
  from ps show "filter is_report (calls (drop (length tr) tr2)) =
      [ReportBenchmark iters (median (samples (drop (length tr) tr2))) name]"
    by (simp add: samples_fetch calls_append calls_fetch_body calls_report_events)
  from ps show "timed_calls (drop (length tr) tr2) = replicate (nat iters) RunFetch"
    by (simp add: timed_calls_fetch)
  from ps show "filter is_run (untimed_calls (drop (length tr) tr2)) =
      [RunInitializer, RunFetch]"
    by (simp add: untimed_calls_fetch)
qed

theorem measurement_timed_and_untimed_runs_witness:
  "(1::int) \<le> 3 \<and>
   fst (benchmarkFeed example_service ''t'' '''' 1 3 []) = Inr () \<and>
   length (samples (snd (benchmarkFeed example_service ''t'' '''' 1 3 []))) = 3 \<and>
   filter is_report (calls (snd (benchmarkFeed example_service ''t'' '''' 1 3 []))) =
     [ReportBenchmark 3 (median [1 / 2, 1 / 10, 3 / 10]) ''t''] \<and>
   timed_calls (snd (benchmarkFeed example_service ''t'' '''' 1 3 [])) =
     [RunFeed [1 / 4], RunFeed [1 / 4], RunFeed [1 / 4]] \<and>
   filter is_run (untimed_calls (snd (benchmarkFeed example_service ''t'' '''' 1 3 []))) =
     [RunFeed [1 / 4]] \<and>
   fst (benchmarkFetch example_service ''t'' '''' 1 3 []) = Inr () \<and>
   length (samples (snd (benchmarkFetch example_service ''t'' '''' 1 3 []))) = 3 \<and>
   filter is_report (calls (snd (benchmarkFetch example_service ''t'' '''' 1 3 []))) =
     [ReportBenchmark 3 (median [1 / 2, 1 / 10, 3 / 10]) ''t''] \<and>
   timed_calls (snd (benchmarkFetch example_service ''t'' '''' 1 3 [])) =
     [RunFetch, RunFetch, RunFetch] \<and>
   filter is_run (untimed_calls (snd (benchmarkFetch example_service ''t'' '''' 1 3 []))) =
     [RunInitializer, RunFetch]"
  using measurement_timed_and_untimed_runs [of 3 example_service "''t''" "''''" 1 "[]"
      "snd (benchmarkFeed example_service ''t'' '''' 1 3 [])"
      "snd (benchmarkFetch example_service ''t'' '''' 1 3 [])"]
  by (simp add: feed_example fetch_example median_def)

text \<open>
  C3. In every call of \<^verbatim>\<open>_benchmarkFetch\<close>, however it ends, each clock reading comes
  after the same five events: the graph, the variable, the session, the initializer run
  that returned and the warm-up fetch that returned. So the initializer and one untimed
  fetch are complete before the first start time is taken, and no sample can include them.
\<close>

theorem fetch_initialised_before_timing:
  assumes "benchmarkFetch env name target sz iters tr = (r, tr')"
    and "drop (length tr) tr' = pre @ TimeTime t # post"
  shows "\<exists>mid. pre = [Ret TfGraph, Ret (TfVariable sz), Ret (TfSession target),
                       Ret RunInitializer, Ret RunFetch] @ mid"
proof -
  let ?five = "[Ret TfGraph, Ret (TfVariable sz), Ret (TfSession target),
                Ret RunInitializer, Ret RunFetch]"
  obtain rb tr1 where body: "fetch_times env target sz iters tr = (rb, tr1)"
    by (cases "fetch_times env target sz iters tr")
  then obtain evs where evs: "tr1 = tr @ evs"
    "filter is_reading evs = [] \<or> (\<exists>rest. evs = ?five @ rest)"
    by (blast dest: fetch_times_events)
  have "\<exists>evs2. tr' = tr1 @ evs2 \<and> filter is_reading evs2 = []"
  proof (cases rb)
    case (Inl e)
    with body assms(1) show ?thesis by (simp add: benchmarkFetch_def bnd_def)
  next
    case (Inr ts)
    with body assms(1) have "print_and_report env name sz iters ts tr1 = (r, tr')"
      by (simp add: benchmarkFetch_def bnd_def)
    then show ?thesis by (auto dest: print_and_report_cases)
  qed
  then obtain evs2 where evs2: "tr' = tr1 @ evs2" "filter is_reading evs2 = []"
    by blast
  with evs(1) assms(2) have new: "evs @ evs2 = pre @ TimeTime t # post"
    by simp
  from evs(2) show ?thesis
  proof
    assume "filter is_reading evs = []"
    with evs2(2) have "filter is_reading (evs @ evs2) = []" by simp
    with new show ?thesis using no_reading_no_split by metis
  next
    assume "\<exists>rest. evs = ?five @ rest"
    then obtain rest where "evs = ?five @ rest" by blast
    with new have "?five @ (rest @ evs2) = pre @ TimeTime t # post" by simp
    then show ?thesis by (rule prefix_before_reading) simp
  qed
qed

theorem fetch_initialised_before_timing_witness:
  "benchmarkFetch example_service ''t'' '''' 1 3 [] =
     (Inr (),
      [Ret TfGraph, Ret (TfVariable 1), Ret (TfSession ''''), Ret RunInitializer, Ret RunFetch] @
      TimeTime 0 #
      [Ret RunFetch, TimeTime (1 / 2),
       TimeTime 1, Ret RunFetch, TimeTime (11 / 10),
       TimeTime 2, Ret RunFetch, TimeTime (23 / 10),
       SessionExit, GraphExit,
       Ret (Print (format_line ''t'' 1 (Float (3 / 10)))),
       Ret (ReportBenchmark 3 (Float (3 / 10)) ''t'')]) \<and>
   (\<exists>mid. [Ret TfGraph, Ret (TfVariable 1), Ret (TfSession ''''), Ret RunInitializer, Ret RunFetch] =
      [Ret TfGraph, Ret (TfVariable 1), Ret (TfSession ''''), Ret RunInitializer, Ret RunFetch] @ mid)"
  using fetch_initialised_before_timing [of example_service "''t''" "''''" 1 3 "[]" "Inr ()"
      "snd (benchmarkFetch example_service ''t'' '''' 1 3 [])"
      "[Ret TfGraph, Ret (TfVariable 1), Ret (TfSession ''''), Ret RunInitializer, Ret RunFetch]"
      0]
  by (simp add: fetch_example)

text \<open>
  C4. \<^verbatim>\<open>_benchmarkFeed("t", "", 1, 3)\<close>, completed against a service under which the three
  timed runs take 0.5, 0.1 and 0.3, reports the median wall time 0.3 and the iteration
  count 3.
\<close>

theorem benchmarkFeed_scenario:
  assumes "benchmarkFeed env ''t'' '''' 1 3 tr = (Inr (), tr')"
    and "samples (drop (length tr) tr') = [0.5, 0.1, 0.3]"
  shows "filter is_report (calls (drop (length tr) tr')) =
           [ReportBenchmark 3 (Float 0.3) ''t'']"
proof -
  from assms(1) obtain ps where
    "tr' = tr @ feed_body '''' 1 (random_rand env tr 1) ps @ report_events ''t'' 1 3 ps"
    by (blast dest: benchmarkFeed_Inr)
  with assms(2) show ?thesis
    by (simp add: samples_feed calls_append calls_feed_body calls_report_events median_def)
qed

theorem benchmarkFeed_scenario_witness:
  "fst (benchmarkFeed example_service ''t'' '''' 1 3 []) = Inr () \<and>
   samples (snd (benchmarkFeed example_service ''t'' '''' 1 3 [])) = [1 / 2, 1 / 10, 3 / 10] \<and>
   filter is_report (calls (snd (benchmarkFeed example_service ''t'' '''' 1 3 []))) =
     [ReportBenchmark 3 (Float (3 / 10)) ''t'']"
proof -
  have "samples (drop (length []) (snd (benchmarkFeed example_service ''t'' '''' 1 3 []))) =
      [0.5, 0.1, 0.3]"
    by (simp add: feed_example)
  from benchmarkFeed_scenario [OF _ this] show ?thesis
    by (simp add: feed_example)
qed

text \<open>
  C5. For every size of at least 1 and every iteration count of at least 1, a completed
  call of \<^verbatim>\<open>_benchmarkFeed\<close> hands exactly one record to \<^verbatim>\<open>report_benchmark\<close>; its
  \<^verbatim>\<open>iters\<close> field is the requested count, its wall time the median of the timed samples
  and its name the name of the case.
\<close>

theorem benchmarkFeed_one_result:
  assumes "1 \<le> sz" and "1 \<le> iters"
    and "benchmarkFeed env name target sz iters tr = (Inr (), tr')"
  shows "filter is_report (calls (drop (length tr) tr')) =
           [ReportBenchmark iters (median (samples (drop (length tr) tr'))) name]"
proof -
  from assms(3) obtain ps where
    "tr' = tr @ feed_body target sz (random_rand env tr sz) ps @ report_events name sz iters ps"
    by (blast dest: benchmarkFeed_Inr)
  then show ?thesis
    by (simp add: samples_feed calls_append calls_feed_body calls_report_events)
qed

theorem benchmarkFeed_one_result_witness:
  "(1::int) \<le> 1 \<and> (1::int) \<le> 3 \<and>
   fst (benchmarkFeed example_service ''t'' '''' 1 3 []) = Inr () \<and>
   filter is_report (calls (snd (benchmarkFeed example_service ''t'' '''' 1 3 []))) =
     [ReportBenchmark 3 (Float 0.3) ''t'']"
  using benchmarkFeed_one_result [OF _ _ feed_example]
  by (simp add: feed_example)

text \<open>
  C6. In a completed call of \<^verbatim>\<open>_benchmarkFeed\<close> the random vector is drawn exactly once,
  as the first thing the call does and so before the session is opened; the warm-up run
  and each of the \<open>iters\<close> timed runs feed that same vector, and these are all the runs.
\<close>

theorem benchmarkFeed_payload_reused:
  assumes "benchmarkFeed env name target sz iters tr = (Inr (), tr')"
  shows "filter is_draw (calls (drop (length tr) tr')) = [NpRandomRand sz] \<and>
         take 5 (drop (length tr) tr') =
           [Ret (NpRandomRand sz), Ret TfGraph, Ret (TfPlaceholder sz), Ret TfIdentity,
            Ret (TfSession target)] \<and>
         filter is_run (untimed_calls (drop (length tr) tr')) =
           [RunFeed (random_rand env tr sz)] \<and>
         timed_calls (drop (length tr) tr') =
           replicate (nat iters) (RunFeed (random_rand env tr sz)) \<and>
         filter is_run (calls (drop (length tr) tr')) =
           replicate (Suc (nat iters)) (RunFeed (random_rand env tr sz))"
proof -
  from assms obtain ps where ps: "length ps = nat iters"
    "tr' = tr @ feed_body target sz (random_rand env tr sz) ps @ report_events name sz iters ps"
    by (blast dest: benchmarkFeed_Inr)
  from ps have "filter is_draw (calls (drop (length tr) tr')) = [NpRandomRand sz]"
    by (simp add: calls_append calls_feed_body calls_report_events)
  moreover from ps have "take 5 (drop (length tr) tr') =
      [Ret (NpRandomRand sz), Ret TfGraph, Ret (TfPlaceholder sz), Ret TfIdentity,
       Ret (TfSession target)]"
    by (simp add: feed_body_def)
  moreover from ps have "filter is_run (untimed_calls (drop (length tr) tr')) =
      [RunFeed (random_rand env tr sz)]"
    by (simp add: untimed_calls_feed)
  moreover from ps have "timed_calls (drop (length tr) tr') =
      replicate (nat iters) (RunFeed (random_rand env tr sz))"
    by (simp add: timed_calls_feed)
  moreover from ps have "filter is_run (calls (drop (length tr) tr')) =
      replicate (Suc (nat iters)) (RunFeed (random_rand env tr sz))"
    by (simp add: calls_append calls_feed_body calls_report_events)
  ultimately show ?thesis by blast
qed

theorem benchmarkFeed_payload_reused_witness:
  "fst (benchmarkFeed example_service ''t'' '''' 1 3 []) = Inr () \<and>
   filter is_draw (calls (snd (benchmarkFeed example_service ''t'' '''' 1 3 []))) =
     [NpRandomRand 1] \<and>
   take 5 (snd (benchmarkFeed example_service ''t'' '''' 1 3 [])) =
     [Ret (NpRandomRand 1), Ret TfGraph, Ret (TfPlaceholder 1), Ret TfIdentity,
      Ret (TfSession '''')] \<and>
   filter is_run (calls (snd (benchmarkFeed example_service ''t'' '''' 1 3 []))) =
     [RunFeed [1 / 4], RunFeed [1 / 4], RunFeed [1 / 4], RunFeed [1 / 4]]"
  using benchmarkFeed_payload_reused [of example_service "''t''" "''''" 1 3 "[]"
      "snd (benchmarkFeed example_service ''t'' '''' 1 3 [])"]
  by (simp add: feed_example)

text \<open>
  C7. Every completed measurement call, of \<^verbatim>\<open>_benchmarkFeed\<close> as of \<^verbatim>\<open>_benchmarkFetch\<close>,
  prints exactly once, and what it prints is the name of the case, the size as an integer
  and the median of the timed samples as a decimal, in this order, with one space between
  them and nothing after the median.
\<close>

theorem measurement_prints_one_line:
  "(benchmarkFeed env name target sz iters tr = (Inr (), tr1) \<longrightarrow>
      filter is_print (calls (drop (length tr) tr1)) =
        [Print (name @ '' '' @ fmt_d sz @ '' '' @
                fmt_f (median (samples (drop (length tr) tr1))))]) \<and>
   (benchmarkFetch env name target sz iters tr = (Inr (), tr2) \<longrightarrow>
      filter is_print (calls (drop (length tr) tr2)) =
        [Print (name @ '' '' @ fmt_d sz @ '' '' @
                fmt_f (median (samples (drop (length tr) tr2))))])"
proof (intro conjI impI)
  assume "benchmarkFeed env name target sz iters tr = (Inr (), tr1)"
  then obtain ps where
    "tr1 = tr @ feed_body target sz (random_rand env tr sz) ps @ report_events name sz iters ps"
    by (blast dest: benchmarkFeed_Inr)
  then show "filter is_print (calls (drop (length tr) tr1)) =
      [Print (name @ '' '' @ fmt_d sz @ '' '' @ fmt_f (median (samples (drop (length tr) tr1))))]"
    by (simp add: samples_feed calls_append calls_feed_body calls_report_events
        format_line_def)
next
  assume "benchmarkFetch env name target sz iters tr = (Inr (), tr2)"
  then obtain ps where
    "tr2 = tr @ fetch_body target sz ps @ report_events name sz iters ps"
    by (blast dest: benchmarkFetch_Inr)
  then show "filter is_print (calls (drop (length tr) tr2)) =
      [Print (name @ '' '' @ fmt_d sz @ '' '' @ fmt_f (median (samples (drop (length tr) tr2))))]"
    by (simp add: samples_fetch calls_append calls_fetch_body calls_report_events
        format_line_def)
qed

theorem measurement_prints_one_line_witness:
  "fst (benchmarkFeed example_service ''t'' '''' 1 3 []) = Inr () \<and>
   filter is_print (calls (snd (benchmarkFeed example_service ''t'' '''' 1 3 []))) =
     [Print ''t 1 0.300000''] \<and>
   fst (benchmarkFetch example_service ''t'' '''' 1 3 []) = Inr () \<and>
   filter is_print (calls (snd (benchmarkFetch example_service ''t'' '''' 1 3 []))) =
     [Print ''t 1 0.300000'']"
  using measurement_prints_one_line [of example_service "''t''" "''''" 1 3 "[]"
      "snd (benchmarkFeed example_service ''t'' '''' 1 3 [])"
      "snd (benchmarkFetch example_service ''t'' '''' 1 3 [])"]
  by (simp add: feed_example fetch_example format_line_example)

text \<open>
  C8. In a completed remote suite the server is reset exactly once after each of the four
  cases: after the report that ends a case and, for the first three, before the session
  of the next case is opened. Every reset names the target of the server all four sessions
  were opened on.
\<close>

theorem grpc_reset_between_cases:
  assumes "benchmarkGrpcSession env tr = (Inr (), tr')"
  shows "\<exists>m1 m2 m3 m4.
      filter case_bound (calls (drop (length tr) tr')) =
        [TfSession (server_target env tr),
         ReportBenchmark 10000 m1 ''benchmark_session_feed_grpc_4B'',
         SessionReset (server_target env tr),
         TfSession (server_target env tr),
         ReportBenchmark 100 m2 ''benchmark_session_feed_grpc_4MB'',
         SessionReset (server_target env tr),
         TfSession (server_target env tr),
         ReportBenchmark 20000 m3 ''benchmark_session_fetch_grpc_4B'',
         SessionReset (server_target env tr),
         TfSession (server_target env tr),
         ReportBenchmark 100 m4 ''benchmark_session_fetch_grpc_4MB'',
         SessionReset (server_target env tr)]"
proof -
  from benchmarkGrpcSession_Inr [OF assms] obtain v1 v2 ps1 ps2 ps3 ps4 where
    "tr' = tr @ [Ret CreateLocalServer] @
        feed_body (server_target env tr) 1 v1 ps1 @
        report_events ''benchmark_session_feed_grpc_4B'' 1 10000 ps1 @
        [Ret (SessionReset (server_target env tr))] @
        feed_body (server_target env tr) (2 ^ 20) v2 ps2 @
        report_events ''benchmark_session_feed_grpc_4MB'' (2 ^ 20) 100 ps2 @
        [Ret (SessionReset (server_target env tr))] @
        fetch_body (server_target env tr) 1 ps3 @
        report_events ''benchmark_session_fetch_grpc_4B'' 1 20000 ps3 @
        [Ret (SessionReset (server_target env tr))] @
        fetch_body (server_target env tr) (2 ^ 20) ps4 @
        report_events ''benchmark_session_fetch_grpc_4MB'' (2 ^ 20) 100 ps4 @
        [Ret (SessionReset (server_target env tr))]"
    by blast
  then show ?thesis
    by (simp add: calls_append calls_feed_body calls_fetch_body calls_report_events
        filter_replicate)
qed

theorem grpc_reset_between_cases_witness:
  "fst (benchmarkGrpcSession example_service []) = Inr () \<and>
   (\<exists>m1 m2 m3 m4.
      filter case_bound (calls (snd (benchmarkGrpcSession example_service []))) =
        [TfSession ''grpc://localhost:2222'',
         ReportBenchmark 10000 m1 ''benchmark_session_feed_grpc_4B'',
         SessionReset ''grpc://localhost:2222'',
         TfSession ''grpc://localhost:2222'',
         ReportBenchmark 100 m2 ''benchmark_session_feed_grpc_4MB'',
         SessionReset ''grpc://localhost:2222'',
         TfSession ''grpc://localhost:2222'',
         ReportBenchmark 20000 m3 ''benchmark_session_fetch_grpc_4B'',
         SessionReset ''grpc://localhost:2222'',
         TfSession ''grpc://localhost:2222'',
         ReportBenchmark 100 m4 ''benchmark_session_fetch_grpc_4MB'',
         SessionReset ''grpc://localhost:2222''])"
proof -
  have ok: "fst (benchmarkGrpcSession example_service []) = Inr ()"
    by (rule reliable_benchmarkGrpcSession [OF reliable_example_service])
  then have "benchmarkGrpcSession example_service [] =
      (Inr (), snd (benchmarkGrpcSession example_service []))"
    by (simp add: prod_eq_iff)
  from grpc_reset_between_cases [OF this] ok show ?thesis
    by (simp add: example_service_target)
qed

text \<open>
  C9. A measurement call either completes, with all its iterations timed and exactly one
  line printed and one result reported, or it ends with an exception and reports nothing.
  The exception the caller gets is the one that was raised. When the call that raised is
  one to the execution service (graph construction, session open or a \<^verbatim>\<open>session.run\<close>),
  nothing is printed either.
\<close>

theorem measurement_all_or_nothing:
  assumes "m = benchmarkFeed env name target sz iters \<or>
           m = benchmarkFetch env name target sz iters"
    and "m tr = (r, tr')"
  shows "(r = Inr () \<and>
          length (samples (drop (length tr) tr')) = nat iters \<and>
          length (filter is_print (calls (drop (length tr) tr'))) = 1 \<and>
          length (filter is_report (calls (drop (length tr) tr'))) = 1) \<or>
         (\<exists>e. r = Inl e \<and>
            filter is_report (calls (drop (length tr) tr')) = [] \<and>
            (\<forall>c e'. Raise c e' \<in> set (drop (length tr) tr') \<longrightarrow>
               e' = e \<and>
               (service_call c \<longrightarrow> filter is_print (calls (drop (length tr) tr')) = [])))"
proof (cases r)
  case (Inr u)
  from assms(1) have "length (samples (drop (length tr) tr')) = nat iters \<and>
      length (filter is_print (calls (drop (length tr) tr'))) = 1 \<and>
      length (filter is_report (calls (drop (length tr) tr'))) = 1"
  proof
    assume "m = benchmarkFeed env name target sz iters"
    with assms(2) Inr obtain ps where "length ps = nat iters"
      "tr' = tr @ feed_body target sz (random_rand env tr sz) ps @ report_events name sz iters ps"
      by (blast dest: benchmarkFeed_Inr)
    then show ?thesis
      by (simp add: samples_feed calls_append calls_feed_body calls_report_events)
  next
    assume "m = benchmarkFetch env name target sz iters"
    with assms(2) Inr obtain ps where "length ps = nat iters"
      "tr' = tr @ fetch_body target sz ps @ report_events name sz iters ps"
      by (blast dest: benchmarkFetch_Inr)
    then show ?thesis
      by (simp add: samples_fetch calls_append calls_fetch_body calls_report_events)
  qed
  with Inr show ?thesis by simp
next
  case (Inl e)
  from assms(1) have "filter is_report (calls (drop (length tr) tr')) = [] \<and>
      (\<forall>c e'. Raise c e' \<in> set (drop (length tr) tr') \<longrightarrow>
         e' = e \<and> (service_call c \<longrightarrow> filter is_print (calls (drop (length tr) tr')) = []))"
  proof
    assume "m = benchmarkFeed env name target sz iters"
    with assms(2) Inl show ?thesis
      unfolding benchmarkFeed_def by (intro failure_generic [OF tidy_feed_times]) simp
  next
    assume "m = benchmarkFetch env name target sz iters"
    with assms(2) Inl show ?thesis
      unfolding benchmarkFetch_def by (intro failure_generic [OF tidy_fetch_times]) simp
  qed
  with Inl show ?thesis by blast
qed

theorem measurement_all_or_nothing_witness:
  "fst (benchmarkFeed (failing_service 10) ''t'' '''' 1 3 []) = Inl Unavailable \<and>
   Raise (RunFeed [1 / 4]) Unavailable \<in> set (snd (benchmarkFeed (failing_service 10) ''t'' '''' 1 3 [])) \<and>
   service_call (RunFeed [1 / 4]) \<and>
   filter is_print (calls (snd (benchmarkFeed (failing_service 10) ''t'' '''' 1 3 []))) = [] \<and>
   filter is_report (calls (snd (benchmarkFeed (failing_service 10) ''t'' '''' 1 3 []))) = [] \<and>
   fst (benchmarkFetch (failing_service 3) ''t'' '''' 1 3 []) = Inl Unavailable \<and>
   Raise RunInitializer Unavailable \<in> set (snd (benchmarkFetch (failing_service 3) ''t'' '''' 1 3 [])) \<and>
   service_call RunInitializer \<and>
   filter is_print (calls (snd (benchmarkFetch (failing_service 3) ''t'' '''' 1 3 []))) = [] \<and>
   filter is_report (calls (snd (benchmarkFetch (failing_service 3) ''t'' '''' 1 3 []))) = [] \<and>
   fst (benchmarkFeed example_service ''t'' '''' 1 3 []) = Inr () \<and>
   length (samples (snd (benchmarkFeed example_service ''t'' '''' 1 3 []))) = 3 \<and>
   length (filter is_print (calls (snd (benchmarkFeed example_service ''t'' '''' 1 3 [])))) = 1 \<and>
   length (filter is_report (calls (snd (benchmarkFeed example_service ''t'' '''' 1 3 [])))) = 1"
  using
    measurement_all_or_nothing [of "benchmarkFeed (failing_service 10) ''t'' '''' 1 3"
      "failing_service 10" "''t''" "''''" 1 3 "[]" "Inl Unavailable"
      "snd (benchmarkFeed (failing_service 10) ''t'' '''' 1 3 [])"]
    measurement_all_or_nothing [of "benchmarkFetch (failing_service 3) ''t'' '''' 1 3"
      "failing_service 3" "''t''" "''''" 1 3 "[]" "Inl Unavailable"
      "snd (benchmarkFetch (failing_service 3) ''t'' '''' 1 3 [])"]
    measurement_all_or_nothing [of "benchmarkFeed example_service ''t'' '''' 1 3"
      example_service "''t''" "''''" 1 3 "[]" "Inr ()"
      "snd (benchmarkFeed example_service ''t'' '''' 1 3 [])"]
  by (simp add: feed_failure_example fetch_failure_example feed_example)

text \<open>
  C10. In both procedures the median that is printed is the wall time that is reported:
  the two evaluations of \<^verbatim>\<open>np.median(times)\<close> see the same samples and give the same
  value, whatever the samples are.
\<close>

theorem printed_median_is_reported_median:
  "(benchmarkFeed env name target sz iters tr = (Inr (), tr1) \<longrightarrow>
      (\<exists>m. m = median (samples (drop (length tr) tr1)) \<and>
           filter is_sink (calls (drop (length tr) tr1)) =
             [Print (format_line name sz m), ReportBenchmark iters m name])) \<and>
   (benchmarkFetch env name target sz iters tr = (Inr (), tr2) \<longrightarrow>
      (\<exists>m. m = median (samples (drop (length tr) tr2)) \<and>
           filter is_sink (calls (drop (length tr) tr2)) =
             [Print (format_line name sz m), ReportBenchmark iters m name]))"
proof (intro conjI impI)
  assume "benchmarkFeed env name target sz iters tr = (Inr (), tr1)"
  then obtain ps where
    "tr1 = tr @ feed_body target sz (random_rand env tr sz) ps @ report_events name sz iters ps"
    by (blast dest: benchmarkFeed_Inr)
  then show "\<exists>m. m = median (samples (drop (length tr) tr1)) \<and>
      filter is_sink (calls (drop (length tr) tr1)) =
        [Print (format_line name sz m), ReportBenchmark iters m name]"
    by (simp add: samples_feed calls_append calls_feed_body calls_report_events)
next
  assume "benchmarkFetch env name target sz iters tr = (Inr (), tr2)"
  then obtain ps where
    "tr2 = tr @ fetch_body target sz ps @ report_events name sz iters ps"
    by (blast dest: benchmarkFetch_Inr)
  then show "\<exists>m. m = median (samples (drop (length tr) tr2)) \<and>
      filter is_sink (calls (drop (length tr) tr2)) =
        [Print (format_line name sz m), ReportBenchmark iters m name]"
    by (simp add: samples_fetch calls_append calls_fetch_body calls_report_events)
qed

theorem printed_median_is_reported_median_witness:
  "fst (benchmarkFeed example_service ''t'' '''' 1 3 []) = Inr () \<and>
   filter is_sink (calls (snd (benchmarkFeed example_service ''t'' '''' 1 3 []))) =
     [Print (format_line ''t'' 1 (Float (3 / 10))), ReportBenchmark 3 (Float (3 / 10)) ''t''] \<and>
   fst (benchmarkFetch example_service ''t'' '''' 1 3 []) = Inr () \<and>
   filter is_sink (calls (snd (benchmarkFetch example_service ''t'' '''' 1 3 []))) =
     [Print (format_line ''t'' 1 (Float (3 / 10))), ReportBenchmark 3 (Float (3 / 10)) ''t'']"
  using printed_median_is_reported_median [of example_service "''t''" "''''" 1 3 "[]"
      "snd (benchmarkFeed example_service ''t'' '''' 1 3 [])"
      "snd (benchmarkFetch example_service ''t'' '''' 1 3 [])"]
  by (simp add: feed_example fetch_example)

end
